theory Spec2Isabelle
  imports Main
begin

section \<open>Strings\<close>

text \<open>
  JavaScript strings are modelled as \<^typ>\<open>string\<close>: a character stands for one UTF-16
  code unit, the characters below 0x80 for the ASCII ones. The line terminators of the regular
  expression dot are line feed and carriage return.
\<close>

definition nl :: char where
  "nl = CHR 0x0A"

definition dq :: char where
  "dq = CHR 0x22"

definition startsWith :: "string \<Rightarrow> string \<Rightarrow> bool" where
  "startsWith s p = (take (length p) s = p)"

definition endsWith :: "string \<Rightarrow> string \<Rightarrow> bool" where
  "endsWith s p = (length p \<le> length s \<and> drop (length s - length p) s = p)"

fun includes_str :: "string \<Rightarrow> string \<Rightarrow> bool" where
  "includes_str [] p = (p = [])"
| "includes_str (c # cs) p = (startsWith (c # cs) p \<or> includes_str cs p)"

definition lower_letters :: string where
  "lower_letters = ''abcdefghijklmnopqrstuvwxyz''"

definition upper_letters :: string where
  "upper_letters = ''ABCDEFGHIJKLMNOPQRSTUVWXYZ''"

text \<open>
  \<open>toUpperCase\<close> and \<open>toLowerCase\<close>. On the ASCII range the language fixes them:
  the 26 letters change case, every other character stays. Outside of it the conversion is
  the Unicode one, which can also lengthen the text; it is taken as a parameter, a function
  from the character to the text that replaces it.
\<close>

definition toUpperCase_char :: "(char \<Rightarrow> string) \<Rightarrow> char \<Rightarrow> string" where
  "toUpperCase_char up c =
     (if digit7 c then up c
      else case map_of (zip lower_letters upper_letters) c of Some u \<Rightarrow> [u] | None \<Rightarrow> [c])"

definition toLowerCase_char :: "(char \<Rightarrow> string) \<Rightarrow> char \<Rightarrow> string" where
  "toLowerCase_char low c =
     (if digit7 c then low c
      else case map_of (zip upper_letters lower_letters) c of Some l \<Rightarrow> [l] | None \<Rightarrow> [c])"

definition toLowerCase :: "(char \<Rightarrow> string) \<Rightarrow> string \<Rightarrow> string" where
  "toLowerCase low s = concat (map (toLowerCase_char low) s)"

text \<open>\<open>s.split(d)\<close> for a one-character separator: never empty, \<open>"".split(".")\<close> is \<open>[""]\<close>.\<close>

fun split_on :: "char \<Rightarrow> string \<Rightarrow> string list" where
  "split_on d [] = [[]]"
| "split_on d (c # cs) =
     (case split_on d cs of
        [] \<Rightarrow> (if c = d then [[], []] else [[c]])
      | w # ws \<Rightarrow> (if c = d then [] # w # ws else (c # w) # ws))"

text \<open>\<open>s.replace(c, "")\<close> with a one-character string pattern: only the first occurrence goes.\<close>

fun remove_first :: "char \<Rightarrow> string \<Rightarrow> string" where
  "remove_first d [] = []"
| "remove_first d (c # cs) = (if c = d then cs else c # remove_first d cs)"

section \<open>Errors\<close>

datatype js_error = TypeError | RangeError

section \<open>The Sub-Entity Namer: getSubDocName\<close>

text \<open>
  \<open>p[0].toUpperCase() + p.slice(1)\<close>: on an empty segment \<open>p[0]\<close> is undefined and the
  method call raises a TypeError.
\<close>

fun capitalize :: "(char \<Rightarrow> string) \<Rightarrow> string \<Rightarrow> js_error + string" where
  "capitalize up [] = Inl TypeError"
| "capitalize up (c # cs) = Inr (toUpperCase_char up c @ cs)"

fun map_segments :: "(char \<Rightarrow> string) \<Rightarrow> string list \<Rightarrow> js_error + string list" where
  "map_segments up [] = Inr []"
| "map_segments up (p # ps) =
     (case capitalize up p of
        Inl e \<Rightarrow> Inl e
      | Inr q \<Rightarrow> (case map_segments up ps of Inl e \<Rightarrow> Inl e | Inr qs \<Rightarrow> Inr (q # qs)))"

definition getSubDocName :: "(char \<Rightarrow> string) \<Rightarrow> string \<Rightarrow> string \<Rightarrow> js_error + string" where
  "getSubDocName up path modelName =
     (case map_segments up (split_on CHR ''.'' path) of
        Inl e \<Rightarrow> Inl e
      | Inr qs \<Rightarrow>
          (let subDocName = modelName @ concat qs
           in Inr (if endsWith subDocName ''s'' then butlast subDocName else subDocName)))"

text \<open>The namer as the specification words it, for paths given as their list of segments.\<close>

definition spec_capitalized :: "(char \<Rightarrow> string) \<Rightarrow> string \<Rightarrow> string" where
  "spec_capitalized up p = (case p of [] \<Rightarrow> [] | c # cs \<Rightarrow> toUpperCase_char up c @ cs)"

definition spec_sub_entity_name :: "(char \<Rightarrow> string) \<Rightarrow> string \<Rightarrow> string list \<Rightarrow> string" where
  "spec_sub_entity_name up owner segments =
     (let candidate = owner @ concat (map (spec_capitalized up) segments)
      in if candidate \<noteq> [] \<and> last candidate = CHR ''s''
         then take (length candidate - 1) candidate else candidate)"

section \<open>JavaScript values\<close>

text \<open>
  The schema handed to the compiler is an arbitrary JavaScript value. Objects list their own
  enumerable properties in enumeration order; \<open>Plain\<close> objects are the ones
  \<open>_.isPlainObject\<close> accepts, \<open>Instance\<close> objects are class instances. The
  constructors that the compiler compares against by identity are the \<open>native\<close> values;
  every other function is a \<open>JFun\<close> with a name, its number of declared parameters
  (its \<open>length\<close>) and its own enumerable properties.

  A value is a tree and has no identity: the model describes one run of the compiler, from
  a schema in which no function and no class instance is reached along two paths.
\<close>

datatype native =
    NString | NNumber | NBoolean | NDate | NBuffer | NMap
  | NSchemaObjectId | NTypesObjectId | NSchemaDecimal128 | NTypesDecimal128

datatype okind = Plain | Instance

datatype jsval =
    JUndefined
  | JNull
  | JBool bool
  | JNum int
  | JStr string
  | JArr "jsval list"
  | JObj okind "(string \<times> jsval) list"
  | JNative native
  | JFun string nat "(string \<times> jsval) list"

text \<open>
  Of the properties the compiler reads, the native constructors have only \<open>schemaName\<close>,
  on the two schema types of mongoose.
\<close>

definition native_props :: "native \<Rightarrow> (string \<times> jsval) list" where
  "native_props n =
     (if n = NSchemaObjectId then [(''schemaName'', JStr ''ObjectId'')]
      else if n = NSchemaDecimal128 then [(''schemaName'', JStr ''Decimal128'')]
      else [])"

text \<open>
  The \<open>length\<close> of the native constructors: that of the language for the built-in ones,
  the number of declared parameters for the ones of the libraries. The compiler only tests
  whether it is positive.
\<close>

definition native_length :: "native \<Rightarrow> nat" where
  "native_length n =
     (if n = NMap then 0
      else if n = NDate then 7
      else if n = NBuffer \<or> n = NSchemaObjectId \<or> n = NSchemaDecimal128 then 2
      else 1)"

fun truthy :: "jsval \<Rightarrow> bool" where
  "truthy JUndefined = False"
| "truthy JNull = False"
| "truthy (JBool b) = b"
| "truthy (JNum n) = (n \<noteq> 0)"
| "truthy (JStr s) = (s \<noteq> [])"
| "truthy _ = True"

fun nullish :: "jsval \<Rightarrow> bool" where
  "nullish JUndefined = True"
| "nullish JNull = True"
| "nullish _ = False"

text \<open>\<open>a ?? b\<close>\<close>

definition nullish_or :: "jsval \<Rightarrow> jsval \<Rightarrow> jsval" where
  "nullish_or a b = (if nullish a then b else a)"

text \<open>\<open>v > 0\<close> for the values a \<open>length\<close> can be: numbers, and booleans through ToNumber.\<close>

fun gt0 :: "jsval \<Rightarrow> bool" where
  "gt0 (JNum n) = (0 < n)"
| "gt0 (JBool b) = b"
| "gt0 _ = False"

text \<open>Decimal digits of a natural number, for array indices and number-to-string.\<close>

definition digits :: string where
  "digits = ''0123456789''"

definition digit_char :: "nat \<Rightarrow> char" where
  "digit_char d = digits ! d"

fun dec_fuel :: "nat \<Rightarrow> nat \<Rightarrow> string" where
  "dec_fuel 0 n = [digit_char (n mod 10)]"
| "dec_fuel (Suc k) n =
     (if n < 10 then [digit_char n] else dec_fuel k (n div 10) @ [digit_char (n mod 10)])"

definition dec :: "nat \<Rightarrow> string" where
  "dec n = dec_fuel n n"

definition index_keys :: "nat \<Rightarrow> string list" where
  "index_keys n = map dec [0..<n]"

definition lookup :: "(string \<times> jsval) list \<Rightarrow> string \<Rightarrow> jsval" where
  "lookup ps k = (case map_of ps k of None \<Rightarrow> JUndefined | Some v \<Rightarrow> v)"

text \<open>
  Property read \<open>v.k\<close>. Reading a property of \<open>undefined\<close> or \<open>null\<close> raises a TypeError;
  numbers and booleans have none of the properties the compiler reads; arrays and strings have
  \<open>length\<close> and their indices; functions have \<open>length\<close> and their own properties.
\<close>

fun get :: "jsval \<Rightarrow> string \<Rightarrow> js_error + jsval" where
  "get JUndefined k = Inl TypeError"
| "get JNull k = Inl TypeError"
| "get (JBool b) k = Inr JUndefined"
| "get (JNum n) k = Inr JUndefined"
| "get (JStr s) k =
     Inr (if k = ''length'' then JNum (int (length s))
          else lookup (zip (index_keys (length s)) (map (\<lambda>c. JStr [c]) s)) k)"
| "get (JArr xs) k =
     Inr (if k = ''length'' then JNum (int (length xs))
          else lookup (zip (index_keys (length xs)) xs) k)"
| "get (JObj kd ps) k = Inr (lookup ps k)"
| "get (JNative n) k =
     Inr (if k = ''length'' then JNum (int (native_length n)) else lookup (native_props n) k)"
| "get (JFun f n ps) k = Inr (if k = ''length'' then JNum (int n) else lookup ps k)"

text \<open>Optional chaining \<open>v?.k\<close>.\<close>

definition get_opt :: "jsval \<Rightarrow> string \<Rightarrow> jsval" where
  "get_opt v k = (case get v k of Inl e \<Rightarrow> JUndefined | Inr w \<Rightarrow> w)"

text \<open>\<open>Object.keys(v)\<close> paired with \<open>v[key]\<close> for each key, in enumeration order.\<close>

fun entries :: "jsval \<Rightarrow> js_error + (string \<times> jsval) list" where
  "entries JUndefined = Inl TypeError"
| "entries JNull = Inl TypeError"
| "entries (JBool b) = Inr []"
| "entries (JNum n) = Inr []"
| "entries (JStr s) = Inr (zip (index_keys (length s)) (map (\<lambda>c. JStr [c]) s))"
| "entries (JArr xs) = Inr (zip (index_keys (length xs)) xs)"
| "entries (JObj kd ps) = Inr (map (\<lambda>k. (k, lookup ps k)) (remdups (map fst ps)))"
| "entries (JNative n) = Inr (native_props n)"
| "entries (JFun f n ps) = Inr (map (\<lambda>k. (k, lookup ps k)) (remdups (map fst ps)))"

text \<open>
  Property write \<open>o.k = v\<close>: an existing key keeps its place, a new key goes last. The
  module is in strict mode, where a write to a property of a primitive value raises a
  TypeError. Arrays and native constructors keep no named properties in this model; the
  compiler never reads back a property it has written to one of them.
\<close>

fun update_alist :: "(string \<times> jsval) list \<Rightarrow> string \<Rightarrow> jsval \<Rightarrow> (string \<times> jsval) list" where
  "update_alist [] k v = [(k, v)]"
| "update_alist ((k', v') # ps) k v =
     (if k' = k then (k, v) # ps else (k', v') # update_alist ps k v)"

fun set_prop :: "jsval \<Rightarrow> string \<Rightarrow> jsval \<Rightarrow> js_error + jsval" where
  "set_prop (JObj kd ps) k v = Inr (JObj kd (update_alist ps k v))"
| "set_prop (JFun f n ps) k v = Inr (JFun f n (update_alist ps k v))"
| "set_prop (JArr xs) k v = Inr (JArr xs)"
| "set_prop (JNative n) k v = Inr (JNative n)"
| "set_prop w k v = Inl TypeError"

section \<open>shouldLeanIncludeVirtuals\<close>

text \<open>\<open>a === false\<close> and \<open>a === true\<close>\<close>

definition is_false :: "jsval \<Rightarrow> bool" where
  "is_false v = (v = JBool False)"

definition is_true :: "jsval \<Rightarrow> bool" where
  "is_true v = (v = JBool True)"

definition shouldLeanIncludeVirtuals :: "jsval \<Rightarrow> js_error + bool" where
  "shouldLeanIncludeVirtuals schema =
     (case get schema ''options'' of
        Inl e \<Rightarrow> Inl e
      | Inr options \<Rightarrow>
          (let toObjectOptions = nullish_or (get_opt options ''toObject'') (JObj Plain []);
               virtuals = get_opt toObjectOptions ''virtuals'';
               getters = get_opt toObjectOptions ''getters''
           in Inr (\<not> ((\<not> truthy virtuals \<and> \<not> truthy getters) \<or>
                        (is_false virtuals \<and> is_true getters)))))"

text \<open>A schema whose toObject options hold the two flags as booleans.\<close>

definition schema_with_flags :: "bool \<Rightarrow> bool \<Rightarrow> jsval" where
  "schema_with_flags virtuals getters =
     JObj Instance [(''options'', JObj Plain [(''toObject'',
        JObj Plain [(''virtuals'', JBool virtuals), (''getters'', JBool getters)])])]"

definition object_keys :: "jsval \<Rightarrow> js_error + string list" where
  "object_keys v = (case entries v of Inl e \<Rightarrow> Inl e | Inr es \<Rightarrow> Inr (map fst es))"

section \<open>makeLine\<close>

definition makeLine :: "string \<Rightarrow> string \<Rightarrow> bool \<Rightarrow> bool \<Rightarrow> string" where
  "makeLine key val isOptional newline =
     (if key \<noteq> [] then key @ (if isOptional then ''?'' else []) @ '': '' else [])
     @ val @ '';'' @ (if newline then [nl] else [])"

section \<open>The Function-Signature Synthesizer: getFuncType\<close>

text \<open>
  \<open>funcSignature.match(/\((?:this: \w*(?:, )?)?(.*)\) => (.*)/)\<close>. The match starts at the
  leftmost opening parenthesis from which the rest of the pattern can match. After the optional
  receiver (taken greedily: its closing part holds no parenthesis, so giving back any of it
  cannot produce a match that the greedy choice misses), the first group runs to the last
  \<open>) => \<close> of the line and the second group takes the rest of the line.
\<close>

definition is_word_char :: "char \<Rightarrow> bool" where
  "is_word_char c = (c \<in> set (lower_letters @ upper_letters @ ''0123456789_''))"

definition is_line_terminator :: "char \<Rightarrow> bool" where
  "is_line_terminator c = (c = CHR 0x0A \<or> c = CHR 0x0D)"

fun split_last_arrow :: "string \<Rightarrow> (string \<times> string) option" where
  "split_last_arrow [] = None"
| "split_last_arrow (c # cs) =
     (case split_last_arrow cs of
        Some (a, b) \<Rightarrow> Some (c # a, b)
      | None \<Rightarrow> (if startsWith (c # cs) '') => '' then Some ([], drop 5 (c # cs)) else None))"

definition skip_receiver :: "string \<Rightarrow> string" where
  "skip_receiver rest =
     (if startsWith rest ''this: ''
      then (let r = dropWhile is_word_char (drop 6 rest)
            in if startsWith r '', '' then drop 2 r else r)
      else rest)"

definition match_here :: "string \<Rightarrow> (string \<times> string) option" where
  "match_here rest =
     split_last_arrow (takeWhile (\<lambda>c. \<not> is_line_terminator c) (skip_receiver rest))"

fun match_signature :: "string \<Rightarrow> (string \<times> string) option" where
  "match_signature [] = None"
| "match_signature (c # cs) =
     (if c = CHR ''(''
      then (case match_here cs of Some r \<Rightarrow> Some r | None \<Rightarrow> match_signature cs)
      else match_signature cs)"

datatype funcType = Methods | Statics | Query

definition getFuncType :: "string \<Rightarrow> funcType \<Rightarrow> string \<Rightarrow> string" where
  "getFuncType funcSignature funcType modelName =
     (let m = match_signature funcSignature;
          params = (case m of None \<Rightarrow> [] | Some (ps, r) \<Rightarrow> (if ps \<noteq> [] then '', '' @ ps else []));
          returnType = (case m of None \<Rightarrow> ''any'' | Some (ps, r) \<Rightarrow> r)
      in case funcType of
           Query \<Rightarrow>
             ''<Q extends mongoose.Query<any, '' @ modelName @ ''Document>>(this: Q'' @ params
               @ '') => Q''
         | Methods \<Rightarrow> ''(this: '' @ modelName @ ''Document'' @ params @ '') => '' @ returnType
         | Statics \<Rightarrow> ''(this: '' @ modelName @ ''Model'' @ params @ '') => '' @ returnType)"

section \<open>parseFunctions\<close>

definition default_signature :: string where
  "default_signature = ''(...args: any[]) => any''"

definition parseFunctions :: "jsval \<Rightarrow> string \<Rightarrow> funcType \<Rightarrow> js_error + string" where
  "parseFunctions funcs modelName funcType =
     (case object_keys funcs of
        Inl e \<Rightarrow> Inl e
      | Inr keys \<Rightarrow>
          Inr (concat (map (\<lambda>key.
                 if key = ''initializeTimestamps'' then []
                 else makeLine key (getFuncType default_signature funcType modelName) False True)
               keys)))"

section \<open>Documentation comment templates\<close>

definition getObjectDocs :: "(char \<Rightarrow> string) \<Rightarrow> string \<Rightarrow> string" where
  "getObjectDocs low modelName =
     ''/**\<newline>'' @ '' * Lean version of '' @ modelName @ ''Document (type alias of `''
       @ modelName @ ''`)\<newline>'' @ '' * \<newline>''
       @ '' * Use this type alias to avoid conflicts with model names:\<newline>''
       @ '' * ```\<newline>'' @ '' * import { '' @ modelName
       @ '' } from \"../models\"\<newline>'' @ '' * import { '' @ modelName
       @ ''Object } from \"../interfaces/mongoose.gen.ts\"\<newline>'' @ '' * \<newline>''
       @ '' * const '' @ toLowerCase low modelName @ ''Object: '' @ modelName @ ''Object = ''
       @ toLowerCase low modelName @ ''.toObject();\<newline>'' @ '' * ```\<newline>'' @ '' */''"

definition getQueryDocs :: "string \<Rightarrow> string" where
  "getQueryDocs modelName =
     ''/**\<newline>'' @ '' * Mongoose Query types\<newline>'' @ '' * \<newline>''
       @ '' * Use type assertion to ensure '' @ modelName @ '' query type safety:\<newline>''
       @ '' * ```\<newline>'' @ '' * '' @ modelName @ ''Schema.query = <'' @ modelName
       @ ''Queries>{ ... };\<newline>'' @ '' * ```\<newline>'' @ '' */''"

definition getMethodDocs :: "string \<Rightarrow> string" where
  "getMethodDocs modelName =
     ''/**\<newline>'' @ '' * Mongoose Method types\<newline>'' @ '' * \<newline>''
       @ '' * Use type assertion to ensure '' @ modelName @ '' methods type safety:\<newline>''
       @ '' * ```\<newline>'' @ '' * '' @ modelName @ ''Schema.methods = <'' @ modelName
       @ ''Methods>{ ... };\<newline>'' @ '' * ```\<newline>'' @ '' */''"

definition getStaticDocs :: "string \<Rightarrow> string" where
  "getStaticDocs modelName =
     ''/**\<newline>'' @ '' * Mongoose Static types\<newline>'' @ '' * \<newline>''
       @ '' * Use type assertion to ensure '' @ modelName @ '' statics type safety:\<newline>''
       @ '' * ```\<newline>'' @ '' * '' @ modelName @ ''Schema.statics = <'' @ modelName
       @ ''Statics>{ ... };\<newline>'' @ '' * ```\<newline>'' @ '' */''"

definition getModelDocs :: "string \<Rightarrow> string" where
  "getModelDocs modelName =
     ''/**\<newline>'' @ '' * Mongoose Model type\<newline>'' @ '' * \<newline>''
       @ '' * Pass this type to the Mongoose Model constructor:\<newline>''
       @ '' * ```\<newline>'' @ '' * const '' @ modelName @ '' = mongoose.model<'' @ modelName
       @ ''Document, '' @ modelName @ ''Model>(\"'' @ modelName @ ''\", '' @ modelName
       @ ''Schema);\<newline>'' @ '' * ```\<newline>'' @ '' */''"

definition getSchemaDocs :: "string \<Rightarrow> string" where
  "getSchemaDocs modelName =
     ''/**\<newline>'' @ '' * Mongoose Schema type\<newline>'' @ '' * \<newline>''
       @ '' * Assign this type to new '' @ modelName @ '' schema instances:\<newline>''
       @ '' * ```\<newline>'' @ '' * const '' @ modelName @ ''Schema: '' @ modelName
       @ ''Schema = new mongoose.Schema({ ... })\<newline>'' @ '' * ```\<newline>'' @ '' */''"

definition getDocumentDocs :: "string \<Rightarrow> string" where
  "getDocumentDocs modelName =
     ''/**\<newline>'' @ '' * Mongoose Document type\<newline>'' @ '' * \<newline>''
       @ '' * Pass this type to the Mongoose Model constructor:\<newline>''
       @ '' * ```\<newline>'' @ '' * const '' @ modelName @ '' = mongoose.model<'' @ modelName
       @ ''Document, '' @ modelName @ ''Model>(\"'' @ modelName @ ''\", '' @ modelName
       @ ''Schema);\<newline>'' @ '' * ```\<newline>'' @ '' */''"

definition getSubdocumentDocs :: "string \<Rightarrow> string \<Rightarrow> string" where
  "getSubdocumentDocs modelName path =
     ''/**\<newline>'' @ '' * Mongoose Embedded Document type\<newline>'' @ '' * \<newline>''
       @ '' * Type of `'' @ modelName @ ''Document[\"'' @ path @ ''\"]` element.\<newline>''
       @ '' */''"

definition getLeanDocs :: "(char \<Rightarrow> string) \<Rightarrow> string \<Rightarrow> string option \<Rightarrow> string" where
  "getLeanDocs low modelName fullName =
     ''/**\<newline>'' @ '' * Lean version of ''
       @ (case fullName of None \<Rightarrow> modelName | Some n \<Rightarrow> n)
       @ ''Document\<newline>'' @ '' * \<newline>''
       @ '' * This has all Mongoose getters & functions removed. This type will be returned from `''
       @ modelName @ ''Document.toObject()`.''
       @ (if fullName = None \<or> fullName = Some [] \<or> fullName = Some modelName
        then '' To avoid conflicts with model names, use the type alias `'' @ modelName @ ''Object`.''
        else [])
       @ ''\<newline>'' @ '' * ```\<newline>'' @ '' * const '' @ toLowerCase low modelName
       @ ''Object = '' @ toLowerCase low modelName @ ''.toObject();\<newline>''
       @ '' * ```\<newline>'' @ '' */''"

section \<open>Sequencing of operations that can throw\<close>

definition andThen :: "js_error + 'a \<Rightarrow> ('a \<Rightarrow> js_error + 'b) \<Rightarrow> js_error + 'b" where
  "andThen m f = (case m of Inl e \<Rightarrow> Inl e | Inr x \<Rightarrow> f x)"

section \<open>Library functions\<close>

text \<open>
  The compiler calls \<open>flatten\<close> and \<open>unflatten\<close> of the \<open>flat\<close> package. String
  conversion of a function value yields its source text, and that of a number from
  \<open>1e21\<close> on is in exponent form: \<open>hostString\<close> is applied to these values only.
  \<open>upperCase\<close> and \<open>lowerCase\<close> are the case conversions of the characters outside
  of the ASCII range. All five are taken as parameters.
\<close>

record lib =
  flatten :: "jsval \<Rightarrow> js_error + jsval"
  unflatten :: "jsval \<Rightarrow> js_error + jsval"
  hostString :: "jsval \<Rightarrow> string"
  upperCase :: "char \<Rightarrow> string"
  lowerCase :: "char \<Rightarrow> string"

text \<open>
  \<open>_.cloneDeep\<close> on values: a copy is equal to its original, except that lodash turns a
  function at the top level into an empty object. A function inside of the value is not
  copied: lodash returns the function object itself, so that the copy and the original share
  it. The model follows one run, in which what is written to such a function is read back as
  written; it does not follow the function object into a later run.
  \<open>_.isPlainObject\<close> accepts plain objects only.
\<close>

definition cloneDeep :: "jsval \<Rightarrow> jsval" where
  "cloneDeep v =
     (case v of JFun f n ps \<Rightarrow> JObj Plain [] | JNative n \<Rightarrow> JObj Plain [] | _ \<Rightarrow> v)"

definition isPlainObject :: "jsval \<Rightarrow> bool" where
  "isPlainObject v = (case v of JObj Plain ps \<Rightarrow> True | _ \<Rightarrow> False)"

definition isArray_js :: "jsval \<Rightarrow> bool" where
  "isArray_js v = (case v of JArr xs \<Rightarrow> True | _ \<Rightarrow> False)"

text \<open>\<open>v[0]\<close> on an array\<close>

definition first_elem :: "jsval \<Rightarrow> jsval" where
  "first_elem v = (case v of JArr (x # xs) \<Rightarrow> x | _ \<Rightarrow> JUndefined)"

fun join_with :: "string \<Rightarrow> string list \<Rightarrow> string" where
  "join_with sep [] = []"
| "join_with sep [x] = x"
| "join_with sep (x # y # ys) = x @ sep @ join_with sep (y # ys)"

text \<open>ToString, with the default conversions of objects and arrays.\<close>

fun toStr :: "(jsval \<Rightarrow> string) \<Rightarrow> jsval \<Rightarrow> string" where
  "toStr ft JUndefined = ''undefined''"
| "toStr ft JNull = ''null''"
| "toStr ft (JBool b) = (if b then ''true'' else ''false'')"
| "toStr ft (JNum n) =
     (if 1000000000000000000000 \<le> \<bar>n\<bar> then ft (JNum n)
      else if n < 0 then ''-'' @ dec (nat (- n)) else dec (nat n))"
| "toStr ft (JStr s) = s"
| "toStr ft (JArr xs) = join_with '','' (map (\<lambda>x. if nullish x then [] else toStr ft x) xs)"
| "toStr ft (JObj kd ps) = ''[object Object]''"
| "toStr ft (JNative n) = ft (JNative n)"
| "toStr ft (JFun f n ps) = ft (JFun f n ps)"

text \<open>\<open>v.join(sep)\<close>: only arrays have the method.\<close>

definition join_js :: "(jsval \<Rightarrow> string) \<Rightarrow> jsval \<Rightarrow> string \<Rightarrow> js_error + string" where
  "join_js ft v sep =
     (case v of
        JArr xs \<Rightarrow> Inr (join_with sep (map (\<lambda>x. if nullish x then [] else toStr ft x) xs))
      | _ \<Rightarrow> Inl TypeError)"

section \<open>The Type-Tag Resolver: convertBaseTypeToTs\<close>

definition is_native :: "native \<Rightarrow> jsval \<Rightarrow> bool" where
  "is_native n v = (v = JNative n)"

definition convertBaseTypeToTs ::
  "lib \<Rightarrow> string \<Rightarrow> jsval \<Rightarrow> bool \<Rightarrow> js_error + string option" where
  "convertBaseTypeToTs L key val isDocument =
     andThen (get val ''schemaName'') (\<lambda>schemaName.
     andThen (get val ''type'') (\<lambda>ty.
       if schemaName = JStr ''Mixed'' \<or> get_opt ty ''schemaName'' = JStr ''Mixed''
       then Inr (Some ''any'')
       else
         andThen (if is_native NMap ty then get val ''of'' else Inr ty) (\<lambda>mongooseType.
           if is_native NString mongooseType \<or> mongooseType = JStr ''String'' then
             andThen (get val ''enum'') (\<lambda>enum.
               if gt0 (get_opt enum ''length'')
               then andThen (join_js (hostString L) enum ([dq] @ '' | '' @ [dq])) (\<lambda>j.
                      Inr (Some ([dq] @ j @ [dq])))
               else Inr (Some ''string''))
           else if is_native NNumber mongooseType \<or> mongooseType = JStr ''Number'' then
             Inr (if key \<noteq> ''__v'' then Some ''number'' else None)
           else if is_native NSchemaDecimal128 mongooseType
                 \<or> is_native NTypesDecimal128 mongooseType then
             Inr (Some (if isDocument then ''mongoose.Types.Decimal128'' else ''number''))
           else if is_native NBoolean mongooseType then Inr (Some ''boolean'')
           else if is_native NDate mongooseType then Inr (Some ''Date'')
           else if is_native NBuffer mongooseType \<or> mongooseType = JStr ''Buffer'' then
             Inr (Some ''Buffer'')
           else if is_native NSchemaObjectId mongooseType \<or> is_native NTypesObjectId mongooseType
                 \<or> mongooseType = JStr ''ObjectId'' then
             Inr (Some ''mongoose.Types.ObjectId'')
           else Inr (Some ''{}''))))"

section \<open>The Schema Tree Compiler: parseSchema\<close>

record parse_args =
  p_schema :: jsval
  p_modelName :: "string option"
  p_addModel :: bool
  p_isDocument :: bool
  p_header :: string
  p_footer :: string
  p_isAugmented :: bool

subsection \<open>parseKey\<close>

text \<open>
  The type tags that \<open>parseKey\<close> expands to \<open>{ type: tag }\<close> when they are given directly
  as the value of a field.
\<close>

definition is_direct_tag :: "jsval \<Rightarrow> bool" where
  "is_direct_tag v =
     (case v of
        JNative n \<Rightarrow> n \<in> set [NString, NNumber, NBoolean, NDate, NBuffer, NSchemaObjectId,
                               NTypesObjectId, NTypesDecimal128, NSchemaDecimal128]
      | JStr s \<Rightarrow> s \<in> set [''String'', ''Number'', ''Buffer'']
      | _ \<Rightarrow> False)"

text \<open>
  First part of \<open>parseKey\<close>: the copy of the value, the initial optionality, the two array
  forms and the expansion of a directly given tag. The result is the normalised value with
  \<open>isOptional\<close> and \<open>isArray\<close>.
\<close>

definition parseKey_normalize :: "jsval \<Rightarrow> js_error + (jsval \<times> bool \<times> bool)" where
  "parseKey_normalize valOriginal =
     (let val = (if isPlainObject valOriginal then cloneDeep valOriginal else valOriginal)
      in andThen (get val ''required'') (\<lambda>required.
         andThen
          (if isArray_js val then
             (let val1 = first_elem val
              in andThen (get val1 ''_isDefaultSetToUndefined'') (\<lambda>d.
                   Inr (val1, truthy (nullish_or d (JBool False)), True)))
           else
             andThen (get val ''type'') (\<lambda>ty.
               if isArray_js ty then
                 andThen (set_prop val ''type'' (first_elem ty)) (\<lambda>val1.
                 andThen (get (first_elem ty) ''type'') (\<lambda>inner.
                   if truthy inner then
                     andThen (get (first_elem ty) ''ref'') (\<lambda>innerRef.
                     andThen (if truthy innerRef then set_prop val1 ''ref'' innerRef
                              else Inr val1) (\<lambda>val2.
                     andThen (set_prop val2 ''type'' inner) (\<lambda>val3.
                       Inr (val3, False, True))))
                   else Inr (val1, \<not> truthy required, True)))
               else Inr (val, \<not> truthy required, False)))
          (\<lambda>(val1, isOptional, isArray).
             Inr (if is_direct_tag val1 then JObj Plain [(''type'', val1)] else val1,
                  isOptional, isArray))))"

definition metadata_keys :: "string list" where
  "metadata_keys = [''get'', ''set'', ''schemaName'', ''defaultOptions'', ''_checkRequired'',
     ''_cast'', ''checkRequired'', ''cast'', ''__v'']"

text \<open>\<open>val.ref.replace("'", "")\<close>: only strings have the method.\<close>

definition replace_quote :: "jsval \<Rightarrow> js_error + string" where
  "replace_quote v = (case v of JStr s \<Rightarrow> Inr (remove_first CHR 0x27 s) | _ \<Rightarrow> Inl TypeError)"

text \<open>
  Second part of \<open>parseKey\<close>: the type of the field. \<open>None\<close> is an early \<open>return ""\<close>;
  otherwise the result is \<open>valType\<close> (\<open>None\<close> for undefined) and \<open>isOptional\<close>. The first
  argument is \<open>parseSchema\<close> itself, for the nested object.
\<close>

definition parseKey_resolve ::
  "(parse_args \<Rightarrow> js_error + string) \<Rightarrow> lib \<Rightarrow> jsval \<Rightarrow> bool \<Rightarrow> string \<Rightarrow> jsval \<Rightarrow> bool
     \<Rightarrow> js_error + (string option \<times> bool) option" where
  "parseKey_resolve rec L schema isDocument key val isOptional =
     andThen (get val ''_inferredInterfaceName'') (\<lambda>inferred.
       if truthy inferred then
         Inr (Some (Some (toStr (hostString L) inferred
                            @ (if isDocument then ''Document'' else [])), isOptional))
       else
         andThen (get val ''path'') (\<lambda>path.
         andThen (get val ''setters'') (\<lambda>setters.
         andThen (get val ''getters'') (\<lambda>getters.
           if truthy path \<and> truthy path \<and> truthy setters \<and> truthy getters then
             (if key = ''id'' then Inr None
              else
                andThen (if \<not> isDocument
                         then andThen (shouldLeanIncludeVirtuals schema) (\<lambda>b. Inr (\<not> b))
                         else Inr False) (\<lambda>skip.
                  if skip then Inr None else Inr (Some (Some ''any'', False))))
           else if key \<noteq> [] \<and> key \<in> set metadata_keys then Inr None
           else
             andThen (get val ''ref'') (\<lambda>ref.
               if truthy ref then
                 andThen (replace_quote ref) (\<lambda>docRef0.
                 andThen (if includes_str docRef0 ''.'' then getSubDocName (upperCase L) docRef0 []
                          else Inr docRef0) (\<lambda>docRef.
                   Inr (Some (Some (if isDocument
                                    then docRef @ ''Document[\"_id\"] | '' @ docRef @ ''Document''
                                    else docRef @ ''[\"_id\"] | '' @ docRef),
                              isOptional))))
               else
                 (let isOptional1 = (if key = ''_id'' then False else isOptional)
                  in andThen (convertBaseTypeToTs L key val isDocument) (\<lambda>convertedType.
                       if convertedType = Some ''{}'' then
                         andThen (rec \<lparr>p_schema = JObj Plain [(''tree'', val)], p_modelName = None,
                                        p_addModel = False, p_isDocument = isDocument,
                                        p_header = ''{\<newline>'', p_footer = ''}'',
                                        p_isAugmented = True\<rparr>) (\<lambda>t.
                           Inr (Some (Some t, False)))
                       else Inr (Some (convertedType, isOptional1)))))))))"

text \<open>Last part of \<open>parseKey\<close>: map, buffer and array wrapping, and the line.\<close>

definition parseKey_wrap ::
  "bool \<Rightarrow> string \<Rightarrow> jsval \<Rightarrow> bool \<Rightarrow> bool \<Rightarrow> string \<Rightarrow> bool \<Rightarrow> js_error + string" where
  "parseKey_wrap isDocument key val isArray isMap valType isOptional =
     (let valType1 = (if isMap
                      then (if isDocument then ''mongoose.Types.Map<'' @ valType @ ''>''
                            else ''Map<string, '' @ valType @ ''>'')
                      else valType);
          valType2 = (if valType1 = ''Buffer'' \<and> isDocument then ''mongoose.Types.Buffer''
                      else valType1)
      in andThen
           (if isArray then
              (if isDocument then
                 andThen (get val ''_isSubdocArray'') (\<lambda>sub.
                   Inr (''mongoose.Types.'' @ (if truthy sub then ''Document'' else [])
                        @ ''Array<'' @ valType2 @ ''>''))
               else
                 Inr ((if includes_str valType2 '' '' then ''('' @ valType2 @ '')'' else valType2)
                      @ ''[]''))
            else Inr valType2)
           (\<lambda>valType3. Inr (makeLine key valType3 isOptional True)))"

definition parseKey ::
  "(parse_args \<Rightarrow> js_error + string) \<Rightarrow> lib \<Rightarrow> jsval \<Rightarrow> bool \<Rightarrow> string \<Rightarrow> jsval
     \<Rightarrow> js_error + string" where
  "parseKey rec L schema isDocument key valOriginal =
     andThen (parseKey_normalize valOriginal) (\<lambda>(val, isOptional0, isArray).
     andThen (get val ''type'') (\<lambda>ty.
       (let isMap = is_native NMap ty
        in andThen (parseKey_resolve rec L schema isDocument key val isOptional0) (\<lambda>r.
             case r of
               None \<Rightarrow> Inr []
             | Some (valType, isOptional) \<Rightarrow>
                 (case valType of
                    None \<Rightarrow> Inr []
                  | Some vt \<Rightarrow>
                      if vt = [] then Inr []
                      else parseKey_wrap isDocument key val isArray isMap vt isOptional)))))"

subsection \<open>Hoisting of child schemas: processChild\<close>

text \<open>\<open>k in o\<close>, \<open>delete o[k]\<close> and the string a path must be for \<open>path.split\<close>.\<close>

definition has_prop :: "jsval \<Rightarrow> string \<Rightarrow> js_error + bool" where
  "has_prop v k =
     (case v of
        JObj kd ps \<Rightarrow> Inr (k \<in> set (map fst ps))
      | JFun f n ps \<Rightarrow> Inr (k = ''length'' \<or> k \<in> set (map fst ps))
      | JNative n \<Rightarrow> Inr (k = ''length'' \<or> k \<in> set (map fst (native_props n)))
      | JArr xs \<Rightarrow> Inr (k = ''length'' \<or> k \<in> set (index_keys (length xs)))
      | _ \<Rightarrow> Inl TypeError)"

definition as_string :: "jsval \<Rightarrow> js_error + string" where
  "as_string v = (case v of JStr s \<Rightarrow> Inr s | _ \<Rightarrow> Inl TypeError)"

text \<open>
  The loop over the keys of the flattened tree that deletes every key extending the path.
\<close>

definition delete_nested :: "string \<Rightarrow> jsval \<Rightarrow> jsval" where
  "delete_nested path v =
     (case v of
        JObj kd ps \<Rightarrow>
          JObj kd (filter (\<lambda>(key, w). \<not> (startsWith key path \<and> length key > length path)) ps)
      | _ \<Rightarrow> v)"

text \<open>
  One call of the function \<open>processChild(rootPath)\<close> returns. Its state is the flattened
  tree and the text of the child interfaces, both updated in place by the source.
\<close>

definition processChild ::
  "(parse_args \<Rightarrow> js_error + string) \<Rightarrow> lib \<Rightarrow> bool \<Rightarrow> bool \<Rightarrow> string \<Rightarrow> jsval \<times> string \<Rightarrow> jsval
     \<Rightarrow> js_error + (jsval \<times> string)" where
  "processChild rec L isDocument isAugmented rootPath st child =
     (case st of (flatSchemaTree, childInterfaces) \<Rightarrow>
     andThen (get child ''model'') (\<lambda>model.
     andThen (get model ''path'') (\<lambda>pathv.
     andThen (get model ''$isArraySubdocument'') (\<lambda>isSubdocArray.
     andThen (as_string pathv) (\<lambda>path.
     andThen (getSubDocName (upperCase L) path rootPath) (\<lambda>name.
     andThen (get child ''schema'') (\<lambda>cs0.
     andThen (set_prop cs0 ''_isReplacedWithSchema'' (JBool True)) (\<lambda>cs1.
     andThen (set_prop cs1 ''_inferredInterfaceName'' (JStr name)) (\<lambda>cs2.
     andThen (set_prop cs2 ''_isSubdocArray'' isSubdocArray) (\<lambda>cs3.
     andThen
       (if truthy isSubdocArray then
          (let defaultValuePath = path @ ''.default''
           in andThen (has_prop flatSchemaTree defaultValuePath) (\<lambda>present.
                if present \<and> get_opt flatSchemaTree defaultValuePath = JUndefined
                then set_prop cs3 ''_isDefaultSetToUndefined'' (JBool True)
                else Inr cs3))
        else Inr cs3) (\<lambda>cs.
     andThen (set_prop flatSchemaTree path (if truthy isSubdocArray then JArr [cs] else cs))
       (\<lambda>flat1.
       (let flat2 = delete_nested path flat1;
            header0 = (if isDocument
                       then (if truthy isSubdocArray then getSubdocumentDocs rootPath path
                             else getDocumentDocs rootPath)
                       else getLeanDocs (lowerCase L) rootPath (Some name));
            header1 = header0 @ (if isAugmented then ''\<newline>'' else ''\<newline>export '');
            header2 = header1 @
              (if isDocument
               then ''interface '' @ name @ ''Document extends '' @
                    (if truthy isSubdocArray then ''mongoose.Types.EmbeddedDocument''
                     else ''mongoose.Document<mongoose.Types.ObjectId>, '' @ name @ ''Methods'')
                    @ '' {\<newline>''
               else ''interface '' @ name @ '' {\<newline>'')
        in andThen (rec \<lparr>p_schema = cs, p_modelName = Some name, p_addModel = False,
                          p_isDocument = isDocument, p_header = header2,
                          p_footer = ''}\<newline>\<newline>'', p_isAugmented = isAugmented\<rparr>) (\<lambda>t.
             Inr (flat2, childInterfaces @ t)))))))))))))))"

text \<open>\<open>childSchemas.forEach(processChild(modelName))\<close>: only arrays have the method.\<close>

fun forEach_child ::
  "(jsval \<times> string \<Rightarrow> jsval \<Rightarrow> js_error + (jsval \<times> string)) \<Rightarrow> jsval \<times> string \<Rightarrow> jsval list
     \<Rightarrow> js_error + (jsval \<times> string)" where
  "forEach_child f st [] = Inr st"
| "forEach_child f st (c # cs) = andThen (f st c) (\<lambda>st1. forEach_child f st1 cs)"

definition as_array :: "jsval \<Rightarrow> js_error + jsval list" where
  "as_array v = (case v of JArr xs \<Rightarrow> Inr xs | _ \<Rightarrow> Inl TypeError)"

subsection \<open>The body of parseSchema\<close>

text \<open>\<open>modelName\<close> in a condition: absent and empty names are falsy.\<close>

definition name_given :: "string option \<Rightarrow> bool" where
  "name_given m = (case m of None \<Rightarrow> False | Some n \<Rightarrow> n \<noteq> [])"

text \<open>The loop \<open>Object.keys(schemaTree).forEach(key => template += parseKey(key, val))\<close>.\<close>

fun forEach_key ::
  "(string \<Rightarrow> jsval \<Rightarrow> js_error + string) \<Rightarrow> string \<Rightarrow> (string \<times> jsval) list
     \<Rightarrow> js_error + string" where
  "forEach_key f template [] = Inr template"
| "forEach_key f template ((key, val) # es) =
     andThen (f key val) (\<lambda>line. forEach_key f (template @ line) es)"

text \<open>The auxiliary types of a model: the text added when \<open>addModel\<close> is set.\<close>

definition model_types :: "lib \<Rightarrow> jsval \<Rightarrow> string \<Rightarrow> bool \<Rightarrow> js_error + string" where
  "model_types L schema modelName isAugmented =
     (let export = (if isAugmented then [] else ''export '');
          t1 = getObjectDocs (lowerCase L) modelName
               @ ''\<newline>'' @ export @ ''type '' @ modelName @ ''Object = '' @ modelName
               @ ''\<newline>\<newline>''
      in andThen (get schema ''query'') (\<lambda>query.
         andThen (object_keys query) (\<lambda>queryKeys.
         andThen
           (if queryKeys \<noteq> [] then
              andThen (parseFunctions (nullish_or query (JObj Plain [])) modelName Query) (\<lambda>fs.
                Inr (t1 @ getQueryDocs modelName
                     @ ''\<newline>'' @ export @ ''type '' @ modelName @ ''Queries = {\<newline>''
                     @ fs @ ''}\<newline>\<newline>''
                     @ (if isAugmented then [] else ''declare module \"mongoose\" {'')
                     @ ''interface Query<ResultType, DocType extends Document> extends ''
                     @ modelName @ ''Queries {}'' @ (if isAugmented then [] else ''}'')
                     @ ''\<newline>\<newline>''))
            else Inr t1) (\<lambda>t2.
         andThen (get schema ''methods'') (\<lambda>methods.
         andThen (parseFunctions methods modelName Methods) (\<lambda>ms.
         andThen (get schema ''statics'') (\<lambda>statics.
         andThen (parseFunctions statics modelName Statics) (\<lambda>ss.
           (let modelExtend = ''mongoose.Model<'' @ modelName @ ''Document>''
            in Inr (t2
                 @ getMethodDocs modelName
                 @ ''\<newline>'' @ export @ ''type '' @ modelName @ ''Methods = {\<newline>''
                 @ ms @ ''}\<newline>\<newline>''
                 @ getStaticDocs modelName
                 @ ''\<newline>'' @ export @ ''type '' @ modelName @ ''Statics = {\<newline>''
                 @ ss @ ''}\<newline>\<newline>''
                 @ getModelDocs modelName
                 @ ''\<newline>'' @ export @ ''interface '' @ modelName @ ''Model extends ''
                 @ modelExtend @ '', '' @ modelName @ ''Statics {}\<newline>\<newline>''
                 @ getSchemaDocs modelName
                 @ ''\<newline>'' @ export @ ''type '' @ modelName @ ''Schema = mongoose.Schema<''
                 @ modelName @ ''Document, '' @ modelName @ ''Model>\<newline>\<newline>''))))))))))"

text \<open>
  The hoisting block of \<open>parseSchema\<close>, entered when the schema has child schemas and a
  model name is given: the result is the schema with its rewritten tree and the text of the
  child interfaces.
\<close>

definition hoistChildren ::
  "(parse_args \<Rightarrow> js_error + string) \<Rightarrow> lib \<Rightarrow> bool \<Rightarrow> bool \<Rightarrow> string \<Rightarrow> jsval \<Rightarrow> jsval
     \<Rightarrow> js_error + (jsval \<times> string)" where
  "hoistChildren rec L isDocument isAugmented rootPath schema0 childSchemas =
     andThen (get schema0 ''tree'') (\<lambda>tree0.
     andThen (flatten L tree0) (\<lambda>flatSchemaTree.
     andThen (as_array childSchemas) (\<lambda>children.
     andThen (forEach_child (processChild rec L isDocument isAugmented rootPath)
                (flatSchemaTree, []) children) (\<lambda>(flat1, childInterfaces).
     andThen (unflatten L flat1) (\<lambda>schemaTree.
     andThen (set_prop schema0 ''tree'' schemaTree) (\<lambda>schema1.
       Inr (schema1, childInterfaces)))))))"

definition parseSchema_body ::
  "(parse_args \<Rightarrow> js_error + string) \<Rightarrow> lib \<Rightarrow> parse_args \<Rightarrow> js_error + string" where
  "parseSchema_body rec L a =
     (let schema0 = cloneDeep (p_schema a);
          isDocument = p_isDocument a;
          isAugmented = p_isAugmented a
      in andThen (get schema0 ''childSchemas'') (\<lambda>childSchemas.
         andThen
           (if gt0 (get_opt childSchemas ''length'') \<and> name_given (p_modelName a)
            then hoistChildren rec L isDocument isAugmented (the (p_modelName a)) schema0
                   childSchemas
            else Inr (schema0, [])) (\<lambda>(schema1, template1).
         andThen (get schema1 ''statics'') (\<lambda>statics.
         andThen
           (if \<not> isDocument \<and> truthy statics \<and> name_given (p_modelName a) \<and> p_addModel a
            then andThen (model_types L schema1 (the (p_modelName a)) isAugmented) (\<lambda>t.
                   Inr (template1 @ t))
            else Inr template1) (\<lambda>template2.
         andThen (get schema1 ''tree'') (\<lambda>schemaTree.
         andThen (entries schemaTree) (\<lambda>es.
         andThen (forEach_key (parseKey rec L schema1 isDocument) (template2 @ p_header a) es)
           (\<lambda>template3. Inr (template3 @ p_footer a)))))))))"

text \<open>
  The recursion of \<open>parseSchema\<close>, bounded by the depth of the call stack: a call that would
  exceed it raises a RangeError.
\<close>

fun parseSchema :: "lib \<Rightarrow> nat \<Rightarrow> parse_args \<Rightarrow> js_error + string" where
  "parseSchema L 0 a = Inl RangeError"
| "parseSchema L (Suc depth) a = parseSchema_body (parseSchema L depth) L a"

section \<open>Field shapes and example inputs\<close>

text \<open>
  A descriptor that the compiler has marked as a hoisted child schema, and a virtual type.
\<close>

definition is_hoisted :: "(string \<times> jsval) list \<Rightarrow> bool" where
  "is_hoisted ps = truthy (lookup ps ''_inferredInterfaceName'')"

definition is_virtual :: "(string \<times> jsval) list \<Rightarrow> bool" where
  "is_virtual ps =
     (truthy (lookup ps ''path'') \<and> truthy (lookup ps ''setters'') \<and> truthy (lookup ps ''getters''))"

definition numeric_tag :: "jsval \<Rightarrow> bool" where
  "numeric_tag v = (is_native NNumber v \<or> v = JStr ''Number'')"

text \<open>
  A field with the numeric type tag: the tag itself, or a descriptor object (neither hoisted
  nor virtual) whose \<open>type\<close> is the tag.
\<close>

definition numeric_field :: "jsval \<Rightarrow> bool" where
  "numeric_field val =
     (numeric_tag val \<or>
      (case val of
         JObj kd ps \<Rightarrow> numeric_tag (lookup ps ''type'') \<and> \<not> is_hoisted ps \<and> \<not> is_virtual ps
       | _ \<Rightarrow> False))"


text \<open>
  A library instance for closed examples; the examples are schemas without child schemas and
  without function values in text position, where none of its three functions is reached.
\<close>

definition example_lib :: lib where
  "example_lib = \<lparr>flatten = Inr, unflatten = Inr,
     hostString = (\<lambda>f. ''function () { [native code] }''),
     upperCase = (\<lambda>c. [c]), lowerCase = (\<lambda>c. [c])\<rparr>"


text \<open>Keys made of decimal digits only: the only keys that can be array indices.\<close>

definition all_digits :: "string \<Rightarrow> bool" where
  "all_digits k = (set k \<subseteq> set digits)"



section \<open>Runs with different stack depths\<close>

text \<open>
  \<open>extends r r'\<close>: wherever the recursive call \<open>r\<close> returns a text, \<open>r'\<close> returns the same.
\<close>

definition extends ::
  "(parse_args \<Rightarrow> js_error + string) \<Rightarrow> (parse_args \<Rightarrow> js_error + string) \<Rightarrow> bool" where
  "extends r r' = (\<forall>a t. r a = Inr t \<longrightarrow> r' a = Inr t)"

section \<open>The Structural Patch Pass: replaceModelTypes\<close>

text \<open>
  The parsed definitions, as far as the pass looks at them through the syntax tree library:
  the statements of the source file, a type alias with the members of its type literal (if
  its type is one), an interface with its members, and a module declaration with the
  statements of its block (if it has one). The type of a property signature is its text.
\<close>

datatype member = PropertySignature string string | OtherMember string

datatype statement =
    TypeAliasDeclaration string "member list option"
  | InterfaceDeclaration string "member list"
  | ModuleDeclaration string "statement list option"
  | OtherStatement string

type_synonym sourceFile = "statement list"

record modelType =
  mt_methods :: "(string \<times> string) list"
  mt_statics :: "(string \<times> string) list"
  mt_query :: "(string \<times> string) list"
  mt_virtuals :: "(string \<times> string) list"

text \<open>
  The tables of known types and the schema map are ordinary objects: a name that is not an own
  key of such an object is looked up in \<open>Object.prototype\<close>, whose members have the names
  below and are all truthy.
\<close>

definition object_prototype_names :: "string list" where
  "object_prototype_names =
     [''constructor'', ''__defineGetter__'', ''__defineSetter__'', ''hasOwnProperty'',
      ''__lookupGetter__'', ''__lookupSetter__'', ''isPrototypeOf'', ''propertyIsEnumerable'',
      ''toString'', ''valueOf'', ''__proto__'', ''toLocaleString'']"

text \<open>
  \<open>prop => { const newType = table[prop.getName()]; if (newType) prop.setType(f(newType)) }\<close>
  on one member; only property signatures are visited. For an own key of the table,
  \<open>newType\<close> is its text and \<open>f\<close> the type made of it. For an inherited name \<open>newType\<close> is a
  member of \<open>Object.prototype\<close>, and \<open>inherited name\<close> is what the call then does: it raises
  an error, or it leaves the property with the type returned (the empty text for a property
  without a type).
\<close>

definition setType_from ::
  "(string \<times> string) list \<Rightarrow> (string \<Rightarrow> string) \<Rightarrow> (string \<Rightarrow> js_error + string) \<Rightarrow> member
     \<Rightarrow> js_error + member" where
  "setType_from table f inherited m =
     (case m of
        PropertySignature name ty \<Rightarrow>
          (case map_of table name of
             Some newType \<Rightarrow>
               if newType \<noteq> [] then Inr (PropertySignature name (f newType)) else Inr m
           | None \<Rightarrow>
               if name \<in> set object_prototype_names
               then andThen (inherited name) (\<lambda>t. Inr (PropertySignature name t))
               else Inr m)
      | OtherMember text \<Rightarrow> Inr m)"

text \<open>\<open>members.forEach(g)\<close>, where \<open>g\<close> can throw.\<close>

fun forEach_member ::
  "(member \<Rightarrow> js_error + member) \<Rightarrow> member list \<Rightarrow> js_error + member list" where
  "forEach_member g [] = Inr []"
| "forEach_member g (m # ms) =
     andThen (g m) (\<lambda>m'. andThen (forEach_member g ms) (\<lambda>ms'. Inr (m' # ms')))"

text \<open>
  \<open>root.getTypeAlias(name)?.getFirstChildByKind(TypeLiteral)?.getChildrenOfKind(PropertySignature)
  .forEach(g)\<close>: the first type alias of that name among the statements of the root.
\<close>

fun onTypeAlias ::
  "string \<Rightarrow> (member \<Rightarrow> js_error + member) \<Rightarrow> statement list \<Rightarrow> js_error + statement list" where
  "onTypeAlias name g [] = Inr []"
| "onTypeAlias name g (TypeAliasDeclaration n lit # ss) =
     (if n = name
      then (case lit of
              None \<Rightarrow> Inr (TypeAliasDeclaration n None # ss)
            | Some ms \<Rightarrow>
                andThen (forEach_member g ms) (\<lambda>ms'. Inr (TypeAliasDeclaration n (Some ms') # ss)))
      else andThen (onTypeAlias name g ss) (\<lambda>ss'. Inr (TypeAliasDeclaration n lit # ss')))"
| "onTypeAlias name g (InterfaceDeclaration n ms # ss) =
     andThen (onTypeAlias name g ss) (\<lambda>ss'. Inr (InterfaceDeclaration n ms # ss'))"
| "onTypeAlias name g (ModuleDeclaration n body # ss) =
     andThen (onTypeAlias name g ss) (\<lambda>ss'. Inr (ModuleDeclaration n body # ss'))"
| "onTypeAlias name g (OtherStatement t # ss) =
     andThen (onTypeAlias name g ss) (\<lambda>ss'. Inr (OtherStatement t # ss'))"

text \<open>
  \<open>root.getInterface(name)?.getChildrenOfKind(PropertySignature).forEach(g)\<close>
\<close>

fun onInterface ::
  "string \<Rightarrow> (member \<Rightarrow> js_error + member) \<Rightarrow> statement list \<Rightarrow> js_error + statement list" where
  "onInterface name g [] = Inr []"
| "onInterface name g (InterfaceDeclaration n ms # ss) =
     (if n = name
      then andThen (forEach_member g ms) (\<lambda>ms'. Inr (InterfaceDeclaration n ms' # ss))
      else andThen (onInterface name g ss) (\<lambda>ss'. Inr (InterfaceDeclaration n ms # ss')))"
| "onInterface name g (TypeAliasDeclaration n lit # ss) =
     andThen (onInterface name g ss) (\<lambda>ss'. Inr (TypeAliasDeclaration n lit # ss'))"
| "onInterface name g (ModuleDeclaration n body # ss) =
     andThen (onInterface name g ss) (\<lambda>ss'. Inr (ModuleDeclaration n body # ss'))"
| "onInterface name g (OtherStatement t # ss) =
     andThen (onInterface name g ss) (\<lambda>ss'. Inr (OtherStatement t # ss'))"

text \<open>
  \<open>getRoot\<close>: with \<open>isAugmented\<close> the block of the first module declaration, and the source
  file itself when there is no module declaration or the first one has no block. The edit
  \<open>h\<close> of the root's statements is applied in place.
\<close>

fun onFirstModule ::
  "(statement list \<Rightarrow> js_error + statement list) \<Rightarrow> statement list
     \<Rightarrow> (js_error + statement list) option" where
  "onFirstModule h [] = None"
| "onFirstModule h (ModuleDeclaration n body # ss) =
     (case body of
        None \<Rightarrow> None
      | Some block \<Rightarrow>
          Some (andThen (h block) (\<lambda>block'. Inr (ModuleDeclaration n (Some block') # ss))))"
| "onFirstModule h (TypeAliasDeclaration n lit # ss) =
     map_option (\<lambda>r. andThen r (\<lambda>ss'. Inr (TypeAliasDeclaration n lit # ss')))
       (onFirstModule h ss)"
| "onFirstModule h (InterfaceDeclaration n ms # ss) =
     map_option (\<lambda>r. andThen r (\<lambda>ss'. Inr (InterfaceDeclaration n ms # ss')))
       (onFirstModule h ss)"
| "onFirstModule h (OtherStatement t # ss) =
     map_option (\<lambda>r. andThen r (\<lambda>ss'. Inr (OtherStatement t # ss'))) (onFirstModule h ss)"

definition onRoot ::
  "bool \<Rightarrow> (statement list \<Rightarrow> js_error + statement list) \<Rightarrow> sourceFile
     \<Rightarrow> js_error + sourceFile" where
  "onRoot isAugmented h sf =
     (if isAugmented
      then (case onFirstModule h sf of None \<Rightarrow> h sf | Some r \<Rightarrow> r)
      else h sf)"

text \<open>
  \<open>getFuncType(newType, ...)\<close> on a member of \<open>Object.prototype\<close>: the value is not a
  string and has no method \<open>match\<close>, so the call raises a TypeError.
\<close>

definition getFuncType_inherited :: "string \<Rightarrow> js_error + string" where
  "getFuncType_inherited name = Inl TypeError"

text \<open>
  \<open>schemas[modelName]\<close>: the schema of an own key, a member of \<open>Object.prototype\<close> for an
  inherited name, and \<open>undefined\<close> otherwise. Of that value only the property \<open>options\<close>
  is read, which no member of \<open>Object.prototype\<close> has; an object without properties stands
  for each of them.
\<close>

definition schema_of :: "(string \<times> jsval) list \<Rightarrow> string \<Rightarrow> jsval" where
  "schema_of schemas modelName =
     (case map_of schemas modelName of
        Some schema \<Rightarrow> schema
      | None \<Rightarrow> if modelName \<in> set object_prototype_names then JObj Instance [] else JUndefined)"

text \<open>
  The body of the loop over \<open>Object.entries(modelTypes)\<close>, for one model.
  \<open>setTypeInherited name\<close> is what \<open>prop.setType\<close> of the syntax tree library does when it is
  handed the member \<open>name\<close> of \<open>Object.prototype\<close> instead of a text.
\<close>

definition replaceModel ::
  "(string \<Rightarrow> js_error + string) \<Rightarrow> (string \<times> jsval) list \<Rightarrow> bool \<Rightarrow> sourceFile
     \<Rightarrow> string \<times> modelType \<Rightarrow> js_error + sourceFile" where
  "replaceModel setTypeInherited schemas isAugmented sf entry =
     (case entry of (modelName, types) \<Rightarrow>
        andThen (if mt_methods types \<noteq> []
                 then onRoot isAugmented
                        (onTypeAlias (modelName @ ''Methods'')
                           (setType_from (mt_methods types)
                              (\<lambda>newType. getFuncType newType Methods modelName)
                              getFuncType_inherited)) sf
                 else Inr sf) (\<lambda>sf1.
        andThen (if mt_statics types \<noteq> []
                 then onRoot isAugmented
                        (onTypeAlias (modelName @ ''Statics'')
                           (setType_from (mt_statics types)
                              (\<lambda>newType. getFuncType newType Statics modelName)
                              getFuncType_inherited)) sf1
                 else Inr sf1) (\<lambda>sf2.
        andThen (if mt_query types \<noteq> []
                 then onRoot isAugmented
                        (onTypeAlias (modelName @ ''Queries'')
                           (setType_from (mt_query types)
                              (\<lambda>newType. getFuncType newType Query modelName)
                              getFuncType_inherited)) sf2
                 else Inr sf2) (\<lambda>sf3.
        if mt_virtuals types \<noteq> [] then
          andThen (onRoot isAugmented
                     (onInterface (modelName @ ''Document'')
                        (setType_from (mt_virtuals types) (\<lambda>newType. newType)
                           setTypeInherited)) sf3) (\<lambda>sf4.
          andThen (shouldLeanIncludeVirtuals (schema_of schemas modelName)) (\<lambda>lean.
            if lean
            then onRoot isAugmented
                   (onInterface modelName
                      (setType_from (mt_virtuals types) (\<lambda>newType. newType)
                         setTypeInherited)) sf4
            else Inr sf4))
        else Inr sf3))))"

fun replaceModels ::
  "(string \<Rightarrow> js_error + string) \<Rightarrow> (string \<times> jsval) list \<Rightarrow> bool \<Rightarrow> sourceFile
     \<Rightarrow> (string \<times> modelType) list \<Rightarrow> js_error + sourceFile" where
  "replaceModels setTypeInherited schemas isAugmented sf [] = Inr sf"
| "replaceModels setTypeInherited schemas isAugmented sf (entry # rest) =
     andThen (replaceModel setTypeInherited schemas isAugmented sf entry) (\<lambda>sf1.
       replaceModels setTypeInherited schemas isAugmented sf1 rest)"

text \<open>
  \<open>modelTypes\<close> and \<open>schemas\<close> are objects keyed by model name, given by their entries in
  enumeration order.
\<close>

definition replaceModelTypes ::
  "(string \<Rightarrow> js_error + string) \<Rightarrow> sourceFile \<Rightarrow> (string \<times> modelType) list
     \<Rightarrow> (string \<times> jsval) list \<Rightarrow> bool \<Rightarrow> js_error + sourceFile" where
  "replaceModelTypes setTypeInherited sourceFile modelTypes schemas isAugmented =
     replaceModels setTypeInherited schemas isAugmented sourceFile modelTypes"

subsection \<open>The pass as one assignment per declaration\<close>

text \<open>
  The declarations the pass can reach are the first type alias and the first interface of each
  name among the statements of the root. \<open>decl_key\<close> names a declaration, \<open>on_members\<close>
  edits its members, and \<open>on_first h seen\<close> edits with \<open>h k\<close> the first declaration of each
  key \<open>k\<close> that is not among \<open>seen\<close>; \<open>in_root\<close> applies an edit to the statements of the
  root. \<open>assign ov\<close> gives a property signature the type that \<open>ov\<close> has for its name, if
  any.
\<close>

datatype decl_kind = AliasKind | InterfaceKind

definition decl_key :: "statement \<Rightarrow> (decl_kind \<times> string) option" where
  "decl_key s =
     (case s of
        TypeAliasDeclaration n lit \<Rightarrow> Some (AliasKind, n)
      | InterfaceDeclaration n ms \<Rightarrow> Some (InterfaceKind, n)
      | _ \<Rightarrow> None)"

definition on_members :: "(member \<Rightarrow> member) \<Rightarrow> statement \<Rightarrow> statement" where
  "on_members g s =
     (case s of
        TypeAliasDeclaration n lit \<Rightarrow> TypeAliasDeclaration n (map_option (map g) lit)
      | InterfaceDeclaration n ms \<Rightarrow> InterfaceDeclaration n (map g ms)
      | _ \<Rightarrow> s)"

fun on_first ::
  "(decl_kind \<times> string \<Rightarrow> member \<Rightarrow> member) \<Rightarrow> (decl_kind \<times> string) list \<Rightarrow> statement list
     \<Rightarrow> statement list" where
  "on_first h seen [] = []"
| "on_first h seen (s # ss) =
     (case decl_key s of
        None \<Rightarrow> s # on_first h seen ss
      | Some k \<Rightarrow> (if k \<in> set seen then s else on_members (h k) s) # on_first h (k # seen) ss)"

fun in_first_module ::
  "(statement list \<Rightarrow> statement list) \<Rightarrow> statement list \<Rightarrow> statement list option" where
  "in_first_module h [] = None"
| "in_first_module h (ModuleDeclaration n body # ss) =
     (case body of
        None \<Rightarrow> None
      | Some block \<Rightarrow> Some (ModuleDeclaration n (Some (h block)) # ss))"
| "in_first_module h (s # ss) = map_option ((#) s) (in_first_module h ss)"

definition in_root :: "bool \<Rightarrow> (statement list \<Rightarrow> statement list) \<Rightarrow> sourceFile \<Rightarrow> sourceFile" where
  "in_root isAugmented h sf =
     (if isAugmented
      then (case in_first_module h sf of None \<Rightarrow> h sf | Some sf' \<Rightarrow> sf')
      else h sf)"

definition assign :: "(string \<rightharpoonup> string) \<Rightarrow> member \<Rightarrow> member" where
  "assign ov m =
     (case m of
        PropertySignature name ty \<Rightarrow>
          PropertySignature name (case ov name of None \<Rightarrow> ty | Some c \<Rightarrow> c)
      | OtherMember text \<Rightarrow> m)"

text \<open>
  The override that a table of known types gives, as \<open>setType_from\<close> reads it when it
  returns. The pass does not look at an empty table.
\<close>

definition table_override ::
  "(string \<times> string) list \<Rightarrow> (string \<Rightarrow> string) \<Rightarrow> (string \<Rightarrow> js_error + string)
     \<Rightarrow> string \<rightharpoonup> string" where
  "table_override table f inherited name =
     (if table = [] then None
      else case map_of table name of
             Some newType \<Rightarrow> if newType \<noteq> [] then Some (f newType) else None
           | None \<Rightarrow>
               if name \<in> set object_prototype_names
               then (case inherited name of Inl e \<Rightarrow> None | Inr t \<Rightarrow> Some t)
               else None)"

text \<open>
  \<open>single k ov\<close> is the override \<open>ov\<close> for the declaration \<open>k\<close> and none for the others;
  \<open>patch aug H\<close> assigns, in the root, the overrides \<open>H k\<close> to the first declaration of each
  key \<open>k\<close>. \<open>model_overrides\<close> collects what the pass assigns for one model, later
  assignments overriding earlier ones.
\<close>

definition single ::
  "decl_kind \<times> string \<Rightarrow> (string \<rightharpoonup> string) \<Rightarrow> decl_kind \<times> string \<Rightarrow> string \<rightharpoonup> string" where
  "single k ov k' = (if k' = k then ov else Map.empty)"

definition patch ::
  "bool \<Rightarrow> (decl_kind \<times> string \<Rightarrow> string \<rightharpoonup> string) \<Rightarrow> sourceFile \<Rightarrow> sourceFile" where
  "patch aug H = in_root aug (on_first (\<lambda>k. assign (H k)) [])"


subsection \<open>Members with a known override\<close>






text \<open>Two files have the same shape when they differ at most in types of property signatures.\<close>

definition erase_member :: "member \<Rightarrow> member" where
  "erase_member m =
     (case m of
        PropertySignature name ty \<Rightarrow> PropertySignature name []
      | OtherMember text \<Rightarrow> m)"

fun erase_stmt :: "statement \<Rightarrow> statement" where
  "erase_stmt (TypeAliasDeclaration n lit) =
     TypeAliasDeclaration n (map_option (map erase_member) lit)"
| "erase_stmt (InterfaceDeclaration n ms) = InterfaceDeclaration n (map erase_member ms)"
| "erase_stmt (ModuleDeclaration n body) =
     ModuleDeclaration n (map_option (map erase_stmt) body)"
| "erase_stmt (OtherStatement text) = OtherStatement text"

definition same_shape :: "sourceFile \<Rightarrow> sourceFile \<Rightarrow> bool" where
  "same_shape sf1 sf2 = (map erase_stmt sf1 = map erase_stmt sf2)"


definition example_modelTypes :: "(string \<times> modelType) list" where
  "example_modelTypes =
     [(''User'', \<lparr>mt_methods = [(''greet'', ''(this: UserDocument, name: string) => string'')],
                  mt_statics = [], mt_query = [],
                  mt_virtuals = [(''fullName'', ''string'')]\<rparr>)]"

definition example_schemas :: "(string \<times> jsval) list" where
  "example_schemas = [(''User'', schema_with_flags False False)]"


section \<open>Well-formed fields\<close>

text \<open>
  A grammar of field values, for the statement that the compiler returns on them. A type tag
  is recognized when the Type-Tag Resolver has a case for it. A reference name is usable when
  it is a string whose dotted segments, after the removal of one apostrophe, are non-empty;
  an \<open>enum\<close> is usable when it is an array or has no positive length.
\<close>

definition recognized_tag :: "jsval \<Rightarrow> bool" where
  "recognized_tag t = (is_direct_tag t \<or> t = JStr ''ObjectId'')"










text \<open>
  The branch of the Type-Tag Resolver for the string tag, as a function of the \<open>enum\<close>
  attribute of the descriptor.
\<close>

definition string_type :: "lib \<Rightarrow> jsval \<Rightarrow> js_error + string option" where
  "string_type L enum =
     (if gt0 (get_opt enum ''length'')
      then andThen (join_js (hostString L) enum ([dq] @ '' | '' @ [dq])) (\<lambda>j.
             Inr (Some ([dq] @ j @ [dq])))
      else Inr (Some ''string''))"

section \<open>Properties\<close>

subsection \<open>Basic facts\<close>

lemma andThen_Inl [simp]: "andThen (Inl e) f = Inl e"
  by (simp add: andThen_def)

lemma andThen_Inr [simp]: "andThen (Inr x) f = f x"
  by (simp add: andThen_def)

lemma andThen_eq_Inr:
  "andThen m f = Inr y \<longleftrightarrow> (\<exists>x. m = Inr x \<and> f x = Inr y)"
  by (cases m) simp_all

lemma map_segments_nonempty:
  "[] \<notin> set ps \<Longrightarrow> map_segments up ps = Inr (map (spec_capitalized up) ps)"
proof (induction ps)
  case Nil
  then show ?case by simp
next
  case (Cons p ps)
  then obtain c cs where "p = c # cs" by (cases p) auto
  with Cons show ?case by (simp add: spec_capitalized_def)
qed

lemma map_segments_empty:
  "[] \<in> set ps \<Longrightarrow> map_segments up ps = Inl TypeError"
proof (induction ps)
  case Nil
  then show ?case by simp
next
  case (Cons p ps)
  show ?case
  proof (cases p)
    case Nil
    then show ?thesis by simp
  next
    case (Cons c cs)
    with Cons.prems Cons.IH show ?thesis by simp
  qed
qed

lemma endsWith_s: "endsWith s ''s'' \<longleftrightarrow> s \<noteq> [] \<and> last s = CHR ''s''"
proof (cases s rule: rev_cases)
  case Nil
  then show ?thesis by (simp add: endsWith_def)
next
  case (snoc ys y)
  then show ?thesis by (auto simp: endsWith_def)
qed

lemma getSubDocName_segments:
  "[] \<notin> set (split_on CHR ''.'' path) \<Longrightarrow>
   getSubDocName up path owner = Inr (spec_sub_entity_name up owner (split_on CHR ''.'' path))"
  by (simp add: getSubDocName_def map_segments_nonempty spec_sub_entity_name_def Let_def
      endsWith_s butlast_conv_take)


lemma match_default_signature:
  "match_signature default_signature = Some (''...args: any[]'', ''any'')"
  by (simp add: default_signature_def match_here_def skip_receiver_def startsWith_def
      is_line_terminator_def)

subsection \<open>The default member type of a function collection\<close>

text \<open>
  C1 (as amended). For a member with no known call signature the signature handed to the
  synthesizer is \<open>(...args: any[]) => any\<close> for every role, and the member type rendered
  from it binds the receiver of the role: the document type for instance methods, the model
  type for statics, and a generic query type for query helpers. Every member of a collection
  other than \<open>initializeTimestamps\<close> gets one line with that type.
\<close>

theorem default_member_type_by_role:
  "getFuncType default_signature Methods m = ''(this: '' @ m @ ''Document, ...args: any[]) => any''
   \<and> getFuncType default_signature Statics m = ''(this: '' @ m @ ''Model, ...args: any[]) => any''
   \<and> getFuncType default_signature Query m =
       ''<Q extends mongoose.Query<any, '' @ m @ ''Document>>(this: Q, ...args: any[]) => Q''
   \<and> parseFunctions (JObj kd ps) m role =
       Inr (concat (map (\<lambda>key. if key = ''initializeTimestamps'' then []
                                else (if key = [] then [] else key @ '': '')
                                     @ getFuncType default_signature role m @ '';\<newline>'')
                        (remdups (map fst ps))))"
proof -
  have line: "makeLine key v False True = (if key = [] then [] else key @ '': '') @ v @ '';\<newline>''"
    for key v
    by (simp add: makeLine_def nl_def)
  have "parseFunctions (JObj kd ps) m role =
       Inr (concat (map (\<lambda>key. if key = ''initializeTimestamps'' then []
                                else (if key = [] then [] else key @ '': '')
                                     @ getFuncType default_signature role m @ '';\<newline>'')
                        (remdups (map fst ps))))"
    unfolding parseFunctions_def object_keys_def line by (simp add: comp_def)
  moreover have "getFuncType default_signature Methods m
      = ''(this: '' @ m @ ''Document, ...args: any[]) => any''"
    by (simp add: getFuncType_def match_default_signature)
  moreover have "getFuncType default_signature Statics m
      = ''(this: '' @ m @ ''Model, ...args: any[]) => any''"
    by (simp add: getFuncType_def match_default_signature)
  moreover have "getFuncType default_signature Query m =
       ''<Q extends mongoose.Query<any, '' @ m @ ''Document>>(this: Q, ...args: any[]) => Q''"
    by (simp add: getFuncType_def match_default_signature)
  ultimately show ?thesis by blast
qed

text \<open>
  C1 fails as stated: the line rendered for an instance method \<open>greet\<close> of \<open>User\<close> is not
  the bare default signature, and the types rendered for two roles differ.
\<close>

theorem default_member_type_counterexample:
  "parseFunctions (JObj Plain [(''greet'', JFun ''greet'' 0 [])]) ''User'' Methods
     = Inr ''greet: (this: UserDocument, ...args: any[]) => any;\<newline>''
   \<and> getFuncType default_signature Methods ''User'' \<noteq> ''(...args: any[]) => any''
   \<and> getFuncType default_signature Methods ''User''
       \<noteq> getFuncType default_signature Statics ''User''"
  by (simp add: getFuncType_def match_default_signature parseFunctions_def object_keys_def
      makeLine_def nl_def lookup_def)

subsection \<open>Virtuals in the lean shape\<close>

text \<open>
  C2 (as amended). With the two toObject flags given as booleans, virtual properties are
  included in the lean shape exactly when the \<open>virtuals\<close> flag is true: two of the four
  combinations exclude them, the two with \<open>virtuals\<close> false.
\<close>

theorem shouldLeanIncludeVirtuals_flags:
  "shouldLeanIncludeVirtuals (schema_with_flags virtuals getters) = Inr virtuals"
  by (cases virtuals; cases getters)
    (simp_all add: shouldLeanIncludeVirtuals_def schema_with_flags_def lookup_def get_opt_def
      nullish_or_def is_false_def is_true_def)

text \<open>
  C2 fails as stated: two different flag combinations exclude the virtual properties.
\<close>

theorem shouldLeanIncludeVirtuals_counterexample:
  "shouldLeanIncludeVirtuals (schema_with_flags False False) = Inr False
   \<and> shouldLeanIncludeVirtuals (schema_with_flags False True) = Inr False"
  by (simp add: shouldLeanIncludeVirtuals_def schema_with_flags_def lookup_def get_opt_def
      nullish_or_def is_false_def is_true_def)

subsection \<open>The Sub-Entity Namer\<close>

text \<open>
  C6. For every path whose dot-separated segments are all non-empty and every owning name,
  \<open>getSubDocName\<close> returns the owning name followed by the segments, each with its first
  character converted to upper case, and with one trailing character removed when that text
  ends in \<open>s\<close>. This holds for every character, whatever the conversion \<open>up\<close> of the
  host does outside of the ASCII range. Being a function of the path and the owner, its
  result is the same at every call.
\<close>

theorem getSubDocName_spec:
  assumes "[] \<notin> set (split_on CHR ''.'' path)"
  shows "getSubDocName up path owner
         = Inr (spec_sub_entity_name up owner (split_on CHR ''.'' path))"
  using assms by (rule getSubDocName_segments)

theorem getSubDocName_spec_witness:
  "\<forall>up. [] \<notin> set (split_on CHR ''.'' ''address.city'') \<and>
   getSubDocName up ''address.city'' ''User'' = Inr ''UserAddressCity'' \<and>
   spec_sub_entity_name up ''User'' (split_on CHR ''.'' ''address.city'') = ''UserAddressCity''"
  using getSubDocName_spec [where path = "''address.city''" and owner = "''User''"]
  by (simp add: spec_sub_entity_name_def spec_capitalized_def toUpperCase_char_def
      lower_letters_def upper_letters_def)

subsection \<open>Reading properties\<close>

lemma digit_char_mem: "d < 10 \<Longrightarrow> digit_char d \<in> set digits"
proof -
  assume "d < 10"
  then have "d < length digits" by (simp add: digits_def)
  then show ?thesis unfolding digit_char_def by (rule nth_mem)
qed

lemma dec_fuel_digits: "set (dec_fuel f n) \<subseteq> set digits"
proof (induction f arbitrary: n)
  case 0
  have "n mod 10 < 10" by simp
  then have "digit_char (n mod 10) \<in> set digits" by (rule digit_char_mem)
  then show ?case by simp
next
  case (Suc f)
  have "n mod 10 < 10" by simp
  then have a: "digit_char (n mod 10) \<in> set digits" by (rule digit_char_mem)
  have b: "n < 10 \<Longrightarrow> digit_char n \<in> set digits" by (rule digit_char_mem)
  show ?case
  proof (cases "n < 10")
    case True
    then show ?thesis using b by simp
  next
    case False
    then show ?thesis using Suc [of "n div 10"] a by simp
  qed
qed

lemma index_keys_digits:
  assumes "k \<in> set (index_keys n)"
  shows "all_digits k"
proof -
  from assms obtain i where "k = dec i" unfolding index_keys_def by auto
  then show ?thesis unfolding all_digits_def dec_def by (simp only: dec_fuel_digits)
qed

lemma lookup_absent: "k \<notin> set (map fst ps) \<Longrightarrow> lookup ps k = JUndefined"
proof -
  assume "k \<notin> set (map fst ps)"
  then have "map_of ps k = None" by (simp add: map_of_eq_None_iff)
  then show ?thesis by (simp add: lookup_def)
qed

lemma lookup_index_named:
  assumes "\<not> all_digits k"
  shows "lookup (zip (index_keys n) xs) k = JUndefined"
proof -
  have "k \<notin> set (index_keys n)" using assms index_keys_digits by blast
  then have "k \<notin> set (map fst (zip (index_keys n) xs))"
    by (auto dest: set_zip_leftD)
  then show ?thesis by (rule lookup_absent)
qed

lemma get_JStr_named:
  "\<not> all_digits k \<Longrightarrow> k \<noteq> ''length'' \<Longrightarrow> get (JStr s) k = Inr JUndefined"
  by (simp add: lookup_index_named)

lemma get_JArr_named:
  "\<not> all_digits k \<Longrightarrow> k \<noteq> ''length'' \<Longrightarrow> get (JArr xs) k = Inr JUndefined"
  by (simp add: lookup_index_named)

subsection \<open>Normalisation of a field value\<close>

lemmas named_key = lookup_index_named all_digits_def digits_def

lemma native_named: "k \<noteq> ''schemaName'' \<Longrightarrow> lookup (native_props n) k = JUndefined"
  by (simp add: native_props_def lookup_def)

lemma normalize_obj_scalar:
  "\<not> isArray_js (lookup ps ''type'') \<Longrightarrow>
   parseKey_normalize (JObj kd ps) = Inr (JObj kd ps, \<not> truthy (lookup ps ''required''), False)"
  by (cases kd) (simp_all add: parseKey_normalize_def isPlainObject_def cloneDeep_def isArray_js_def
      is_direct_tag_def)

lemma normalize_direct:
  "is_direct_tag v \<Longrightarrow>
   \<exists>opt. parseKey_normalize v = Inr (JObj Plain [(''type'', v)], opt, False)"
  by (cases v) (auto simp: parseKey_normalize_def isPlainObject_def cloneDeep_def isArray_js_def
      is_direct_tag_def named_key native_named)

lemma resolve_metadata_key:
  assumes "\<not> is_hoisted ps" "\<not> is_virtual ps" "key \<noteq> []" "key \<in> set metadata_keys"
  shows "parseKey_resolve rec L schema isDocument key (JObj kd ps) opt = Inr None"
  using assms by (auto simp: parseKey_resolve_def is_hoisted_def is_virtual_def)

lemma parseKey_metadata_key:
  assumes "parseKey_normalize v = Inr (JObj kd ps, opt, arr)"
    and "\<not> is_hoisted ps" "\<not> is_virtual ps" "key \<noteq> []" "key \<in> set metadata_keys"
  shows "parseKey rec L schema isDocument key v = Inr []"
  using assms by (simp add: parseKey_def resolve_metadata_key)

subsection \<open>The version key\<close>

text \<open>
  C7. A field with the numeric type tag whose key is \<open>__v\<close> is left out in both shapes:
  \<open>parseKey\<close> returns the empty text for it, so the loop over the fields continues with the
  text it had before the field.
\<close>

theorem version_key_omitted:
  assumes "numeric_field val"
  shows "parseKey rec L schema isDocument ''__v'' val = Inr []
    \<and> forEach_key (parseKey rec L schema isDocument) template ((''__v'', val) # es)
        = forEach_key (parseKey rec L schema isDocument) template es"
proof -
  have key: "''__v'' \<noteq> []" "''__v'' \<in> set metadata_keys" by (simp_all add: metadata_keys_def)
  have "parseKey rec L schema isDocument ''__v'' val = Inr []"
  proof (cases "numeric_tag val")
    case True
    then have "is_direct_tag val"
      by (auto simp: numeric_tag_def is_direct_tag_def is_native_def split: jsval.splits)
    then obtain opt where "parseKey_normalize val = Inr (JObj Plain [(''type'', val)], opt, False)"
      using normalize_direct by blast
    moreover have "\<not> is_hoisted [(''type'', val)]" "\<not> is_virtual [(''type'', val)]"
      by (simp_all add: is_hoisted_def is_virtual_def lookup_def)
    ultimately show ?thesis using key by (rule parseKey_metadata_key)
  next
    case False
    with assms obtain kd ps where v: "val = JObj kd ps"
      and ps: "numeric_tag (lookup ps ''type'')" "\<not> is_hoisted ps" "\<not> is_virtual ps"
      by (auto simp: numeric_field_def split: jsval.splits)
    from ps(1) have "\<not> isArray_js (lookup ps ''type'')"
      by (auto simp: numeric_tag_def is_native_def isArray_js_def split: jsval.splits)
    then have "parseKey_normalize val
        = Inr (JObj kd ps, \<not> truthy (lookup ps ''required''), False)"
      unfolding v by (rule normalize_obj_scalar)
    then show ?thesis using ps(2,3) key by (rule parseKey_metadata_key)
  qed
  then show ?thesis by simp
qed

theorem version_key_omitted_witness:
  "numeric_field (JObj Plain [(''type'', JNative NNumber), (''select'', JBool False)])
   \<and> parseKey (parseSchema example_lib 2) example_lib (JObj Instance []) False ''__v''
        (JObj Plain [(''type'', JNative NNumber), (''select'', JBool False)]) = Inr []
   \<and> parseKey (parseSchema example_lib 2) example_lib (JObj Instance []) True ''__v''
        (JObj Plain [(''type'', JNative NNumber), (''select'', JBool False)]) = Inr []"
proof -
  have h: "numeric_field (JObj Plain [(''type'', JNative NNumber), (''select'', JBool False)])"
    by (simp add: numeric_field_def numeric_tag_def is_native_def lookup_def is_hoisted_def
        is_virtual_def)
  show ?thesis
    using h version_key_omitted [OF h, of "parseSchema example_lib 2" example_lib
        "JObj Instance []" False]
      version_key_omitted [OF h, of "parseSchema example_lib 2" example_lib
        "JObj Instance []" True]
    by simp
qed

subsection \<open>Cross-entity references\<close>

lemma remove_first_absent: "d \<notin> set s \<Longrightarrow> remove_first d s = s"
  by (induction s) auto


lemma split_on_no_sep: "d \<notin> set s \<Longrightarrow> split_on d s = [s]"
  by (induction s) (auto split: list.splits)

lemma includes_space_union: "includes_str (a @ '' | '' @ b) '' ''"
  by (induction a) (auto simp: startsWith_def)


lemmas eval_defs =
  parseKey_def parseKey_normalize_def parseKey_resolve_def parseKey_wrap_def
  convertBaseTypeToTs_def makeLine_def isPlainObject_def cloneDeep_def isArray_js_def
  first_elem_def is_direct_tag_def is_native_def lookup_def get_opt_def nullish_or_def
  native_props_def metadata_keys_def replace_quote_def startsWith_def nl_def dq_def
  parseSchema_body_def name_given_def




subsection \<open>Arrays of numbers\<close>

text \<open>
  C3. The field \<open>tags\<close> as an array of numbers, without \<open>required\<close>. Written as the bare
  array \<open>[Number]\<close> it is emitted without the optional marker in both shapes. Written as
  \<open>{ type: [Number] }\<close> it is emitted with the marker in both shapes: that branch keeps the
  optionality computed from the absent \<open>required\<close>.
\<close>

theorem number_array_optionality:
  "parseKey rec L schema False ''tags'' (JArr [JNative NNumber]) = Inr ''tags: number[];\<newline>''
   \<and> parseKey rec L schema True ''tags'' (JArr [JNative NNumber])
       = Inr ''tags: mongoose.Types.Array<number>;\<newline>''
   \<and> parseKey rec L schema False ''tags'' (JObj Plain [(''type'', JArr [JNative NNumber])])
       = Inr ''tags?: number[];\<newline>''
   \<and> parseKey rec L schema True ''tags'' (JObj Plain [(''type'', JArr [JNative NNumber])])
       = Inr ''tags?: mongoose.Types.Array<number>;\<newline>''"
  by (simp add: eval_defs named_key native_named)

subsection \<open>Independence of the stack depth\<close>

lemma extendsD: "extends r r' \<Longrightarrow> r a = Inr t \<Longrightarrow> r' a = Inr t"
  by (simp add: extends_def)

lemma andThen_mono:
  assumes "andThen m f = Inr y"
    and "\<And>x. m = Inr x \<Longrightarrow> f x = Inr y \<Longrightarrow> g x = Inr y"
  shows "andThen m g = Inr y"
  using assms by (cases m) simp_all

lemma andThen_mono2:
  assumes "andThen m f = Inr y"
    and "\<And>x. m = Inr x \<Longrightarrow> m' = Inr x"
    and "\<And>x. m = Inr x \<Longrightarrow> f x = Inr y \<Longrightarrow> g x = Inr y"
  shows "andThen m' g = Inr y"
  using assms by (cases m) simp_all


lemma if_mono:
  assumes "(if c then a else b) = Inr y"
    and "c \<Longrightarrow> a = Inr y \<Longrightarrow> a' = Inr y"
    and "\<not> c \<Longrightarrow> b = Inr y \<Longrightarrow> b' = Inr y"
  shows "(if c then a' else b') = Inr y"
  using assms by (cases c) simp_all

lemma parseKey_resolve_mono:
  assumes "extends r r'"
    and "parseKey_resolve r L schema isDocument key val opt = Inr y"
  shows "parseKey_resolve r' L schema isDocument key val opt = Inr y"
  using assms(2) unfolding parseKey_resolve_def Let_def
  by (elim andThen_mono if_mono) (auto simp: andThen_eq_Inr dest: extendsD [OF assms(1)])

lemma parseKey_mono:
  assumes "extends r r'"
    and "parseKey r L schema isDocument key val = Inr y"
  shows "parseKey r' L schema isDocument key val = Inr y"
  using assms(2) unfolding parseKey_def Let_def
  by (elim andThen_mono2 [where m' = "parseKey_resolve r' L schema isDocument key _ _"] andThen_mono if_mono)
     (auto simp: andThen_eq_Inr split: prod.splits dest: parseKey_resolve_mono [OF assms(1)])

lemma forEach_key_mono:
  assumes "\<And>k v y. f k v = Inr y \<Longrightarrow> g k v = Inr y"
  shows "forEach_key f t es = Inr y \<Longrightarrow> forEach_key g t es = Inr y"
proof (induction es arbitrary: t)
  case Nil
  then show ?case by simp
next
  case (Cons e es)
  obtain k v where e: "e = (k, v)" by (cases e)
  from Cons.prems obtain line where "f k v = Inr line" "forEach_key f (t @ line) es = Inr y"
    by (auto simp: e andThen_eq_Inr)
  then show ?case using assms Cons.IH by (simp add: e)
qed

lemma processChild_mono:
  assumes "extends r r'"
    and "processChild r L isDocument isAugmented rootPath st child = Inr y"
  shows "processChild r' L isDocument isAugmented rootPath st child = Inr y"
proof -
  obtain flat ci where st: "st = (flat, ci)" by (cases st)
  show ?thesis
    using assms(2) unfolding processChild_def Let_def st prod.case
    by (elim andThen_mono if_mono) (auto simp: andThen_eq_Inr dest: extendsD [OF assms(1)])
qed

lemma forEach_child_mono:
  assumes "\<And>st c y. f st c = Inr y \<Longrightarrow> g st c = Inr y"
  shows "forEach_child f st cs = Inr y \<Longrightarrow> forEach_child g st cs = Inr y"
proof (induction cs arbitrary: st)
  case Nil
  then show ?case by simp
next
  case (Cons c cs)
  from Cons.prems obtain st1 where "f st c = Inr st1" "forEach_child f st1 cs = Inr y"
    by (auto simp: andThen_eq_Inr)
  then show ?case using assms Cons.IH by simp
qed

lemma hoistChildren_mono:
  assumes "extends r r'"
    and "hoistChildren r L isDocument isAugmented rootPath schema0 cs = Inr y"
  shows "hoistChildren r' L isDocument isAugmented rootPath schema0 cs = Inr y"
proof -
  have C: "forEach_child (processChild r' L isDocument isAugmented rootPath) st xs = Inr z"
    if "forEach_child (processChild r L isDocument isAugmented rootPath) st xs = Inr z"
    for st xs z
    using that by (rule forEach_child_mono [rotated]) (rule processChild_mono [OF assms(1)])
  show ?thesis
    using assms(2) unfolding hoistChildren_def
    by (elim andThen_mono) (auto simp: andThen_eq_Inr dest: C)
qed

lemma parseSchema_body_mono:
  assumes "extends r r'"
    and "parseSchema_body r L a = Inr y"
  shows "parseSchema_body r' L a = Inr y"
proof -
  define schema0 where "schema0 = cloneDeep (p_schema a)"
  define hoist where "hoist rec cs =
     (if gt0 (get_opt cs ''length'') \<and> name_given (p_modelName a)
      then hoistChildren rec L (p_isDocument a) (p_isAugmented a) (the (p_modelName a)) schema0 cs
      else Inr (schema0, []))" for rec cs
  define aux where "aux schema1 template1 statics =
     (if \<not> p_isDocument a \<and> truthy statics \<and> name_given (p_modelName a) \<and> p_addModel a
      then andThen (model_types L schema1 (the (p_modelName a)) (p_isAugmented a))
             (\<lambda>t. Inr (template1 @ t))
      else Inr template1)" for schema1 template1 statics
  have body: "parseSchema_body rec L a =
      andThen (get schema0 ''childSchemas'') (\<lambda>cs.
      andThen (hoist rec cs) (\<lambda>(schema1, template1).
      andThen (get schema1 ''statics'') (\<lambda>statics.
      andThen (aux schema1 template1 statics) (\<lambda>template2.
      andThen (get schema1 ''tree'') (\<lambda>schemaTree.
      andThen (entries schemaTree) (\<lambda>es.
      andThen (forEach_key (parseKey rec L schema1 (p_isDocument a)) (template2 @ p_header a) es)
        (\<lambda>template3. Inr (template3 @ p_footer a))))))))" for rec
    unfolding parseSchema_body_def Let_def schema0_def hoist_def aux_def by (rule refl)
  have K: "forEach_key (parseKey r' L schema isDoc) t es = Inr z"
    if "forEach_key (parseKey r L schema isDoc) t es = Inr z" for schema isDoc t es z
    using that by (rule forEach_key_mono [rotated]) (rule parseKey_mono [OF assms(1)])
  have H: "hoist r' cs = Inr z" if "hoist r cs = Inr z" for cs z
    using that hoistChildren_mono [OF assms(1)] unfolding hoist_def by (auto split: if_splits)
  from assms(2) obtain cs schema1 template1 statics template2 schemaTree es template3 where
    f: "get schema0 ''childSchemas'' = Inr cs"
      "hoist r cs = Inr (schema1, template1)"
      "get schema1 ''statics'' = Inr statics"
      "aux schema1 template1 statics = Inr template2"
      "get schema1 ''tree'' = Inr schemaTree"
      "entries schemaTree = Inr es"
      "forEach_key (parseKey r L schema1 (p_isDocument a)) (template2 @ p_header a) es
         = Inr template3"
      "y = template3 @ p_footer a"
    unfolding body by (auto simp: andThen_eq_Inr)
  show ?thesis
    unfolding body using f(1,3,4,5,6,8) H [OF f(2)] K [OF f(7)] by simp
qed

lemma parseSchema_Suc: "extends (parseSchema L d) (parseSchema L (Suc d))"
proof (induction d)
  case 0
  show ?case by (simp add: extends_def)
next
  case (Suc d)
  show ?case
    unfolding extends_def
  proof (intro allI impI)
    fix a t
    assume "parseSchema L (Suc d) a = Inr t"
    then have "parseSchema_body (parseSchema L d) L a = Inr t" by simp
    then have "parseSchema_body (parseSchema L (Suc d)) L a = Inr t"
      by (rule parseSchema_body_mono [OF Suc])
    then show "parseSchema L (Suc (Suc d)) a = Inr t" by simp
  qed
qed

lemma parseSchema_mono:
  "d \<le> d' \<Longrightarrow> parseSchema L d a = Inr t \<Longrightarrow> parseSchema L d' a = Inr t"
proof (induction d' arbitrary: )
  case 0
  then show ?case by simp
next
  case (Suc d')
  show ?case
  proof (cases "d = Suc d'")
    case True
    with Suc.prems show ?thesis by simp
  next
    case False
    with Suc.prems have "d \<le> d'" by simp
    then have "parseSchema L d' a = Inr t" using Suc by simp
    then show ?thesis using parseSchema_Suc [of L d'] by (simp only: extends_def)
  qed
qed

subsection \<open>Independence of the stack depth\<close>

text \<open>
  Within one run the text does not depend on the stack depth that is available: two runs from
  the same schema value that both return, return the same text.
\<close>

lemma parseSchema_depth_independent:
  assumes "parseSchema L d1 a = Inr t1" and "parseSchema L d2 a = Inr t2"
  shows "t1 = t2"
proof (cases "d1 \<le> d2")
  case True
  then have "parseSchema L d2 a = Inr t1" using assms(1) by (rule parseSchema_mono)
  with assms(2) show ?thesis by simp
next
  case False
  then have "d2 \<le> d1" by simp
  then have "parseSchema L d1 a = Inr t2" using assms(2) by (rule parseSchema_mono)
  with assms(1) show ?thesis by simp
qed

subsection \<open>The patch pass as an assignment\<close>

lemma assign_empty [simp]: "assign Map.empty m = m"
  by (cases m) (simp_all add: assign_def)


lemma decl_key_on_members [simp]: "decl_key (on_members g s) = decl_key s"
  by (cases s) (simp_all add: decl_key_def on_members_def)


lemma assign_empty_fun [simp]: "assign Map.empty = (\<lambda>m. m)"
  by (rule ext) simp

lemma on_members_ident: "(\<And>m. g m = m) \<Longrightarrow> on_members g s = s"
proof -
  assume "\<And>m. g m = m"
  then have "g = (\<lambda>m. m)" by (intro ext)
  then show ?thesis by (cases s) (simp_all add: on_members_def option.map_ident)
qed



lemma on_first_empty [simp]: "on_first (\<lambda>k m. m) seen ss = ss"
proof (induction ss arbitrary: seen)
  case Nil
  show ?case by simp
next
  case (Cons s ss)
  then show ?case by (cases "decl_key s") (simp_all add: on_members_ident)
qed




lemma patch_empty [simp]: "patch aug (\<lambda>k. Map.empty) sf = sf"
proof -
  have id: "on_first (\<lambda>k m. m) [] = (\<lambda>b. b)" by (rule ext) simp
  have "in_first_module (\<lambda>b. b) sf = Some sf1 \<Longrightarrow> sf1 = sf" for sf1
    by (induction "\<lambda>b::statement list. b" sf arbitrary: sf1 rule: in_first_module.induct)
      (auto split: option.splits)
  then show ?thesis by (auto simp: patch_def in_root_def id split: option.splits)
qed



lemma table_override_empty [simp]: "table_override [] f inh = Map.empty"
  by (rule ext) (simp add: table_override_def)

lemma single_empty [simp]: "single k Map.empty = (\<lambda>k'. Map.empty)"
  by (rule ext) (simp add: single_def)

subsection \<open>Shapes\<close>

lemma erase_assign [simp]: "erase_member (assign ov m) = erase_member m"
  by (cases m) (simp_all add: erase_member_def assign_def)







lemma same_shape_sym: "same_shape a b \<Longrightarrow> same_shape b a"
  by (simp add: same_shape_def)

subsection \<open>Edits that return\<close>
























lemma replaceModelTypes_inherited_name:
  "replaceModelTypes inh
     [TypeAliasDeclaration ''UserMethods'' (Some [PropertySignature ''toString'' ''() => string''])]
     example_modelTypes example_schemas False = Inl TypeError"
  by (simp add: replaceModelTypes_def replaceModel_def example_modelTypes_def onRoot_def
      setType_from_def object_prototype_names_def getFuncType_inherited_def)

subsection \<open>Idempotence of the patch pass\<close>



section \<open>The compiler on well-formed fields\<close>

lemma get_total: "\<not> nullish v \<Longrightarrow> get v k = Inr (get_opt v k)"
  by (cases v) (simp_all add: get_opt_def)

lemma entries_total: "\<not> nullish v \<Longrightarrow> \<exists>es. entries v = Inr es"
  by (cases v) simp_all




lemma convert_eq:
  assumes "\<not> nullish val"
  shows "convertBaseTypeToTs L key val isDoc =
     (if get_opt val ''schemaName'' = JStr ''Mixed''
         \<or> get_opt (get_opt val ''type'') ''schemaName'' = JStr ''Mixed''
      then Inr (Some ''any'')
      else
        (let mongooseType = (if is_native NMap (get_opt val ''type'') then get_opt val ''of''
                             else get_opt val ''type'')
         in if is_native NString mongooseType \<or> mongooseType = JStr ''String''
            then string_type L (get_opt val ''enum'')
            else if is_native NNumber mongooseType \<or> mongooseType = JStr ''Number''
            then Inr (if key \<noteq> ''__v'' then Some ''number'' else None)
            else if is_native NSchemaDecimal128 mongooseType
                 \<or> is_native NTypesDecimal128 mongooseType
            then Inr (Some (if isDoc then ''mongoose.Types.Decimal128'' else ''number''))
            else if is_native NBoolean mongooseType then Inr (Some ''boolean'')
            else if is_native NDate mongooseType then Inr (Some ''Date'')
            else if is_native NBuffer mongooseType \<or> mongooseType = JStr ''Buffer''
            then Inr (Some ''Buffer'')
            else if is_native NSchemaObjectId mongooseType \<or> is_native NTypesObjectId mongooseType
                 \<or> mongooseType = JStr ''ObjectId''
            then Inr (Some ''mongoose.Types.ObjectId'')
            else Inr (Some ''{}'')))"
proof -
  have if_Inr: "(if c then Inr a else Inr b) = (Inr (if c then a else b) :: js_error + jsval)"
    for c a b by simp
  show ?thesis
    unfolding convertBaseTypeToTs_def string_type_def
    by (simp only: get_total [OF assms] if_Inr andThen_Inr Let_def)
qed








lemma ok_andThen:
  "\<exists>x. m = Inr x \<Longrightarrow> (\<And>x. m = Inr x \<Longrightarrow> \<exists>c. f x = Inr c) \<Longrightarrow> \<exists>c. andThen m f = Inr c"
  by auto

















lemma recognized_not_array: "recognized_tag t \<Longrightarrow> \<not> isArray_js t \<and> \<not> nullish t"
  by (cases t) (simp_all add: recognized_tag_def is_direct_tag_def isArray_js_def)

























lemma unrecognized_tag_sentinel:
  assumes "\<not> nullish val"
    and "get_opt val ''schemaName'' \<noteq> JStr ''Mixed''"
    and "get_opt (get_opt val ''type'') ''schemaName'' \<noteq> JStr ''Mixed''"
    and "\<not> is_native NMap (get_opt val ''type'')"
    and "\<not> recognized_tag (get_opt val ''type'')"
  shows "convertBaseTypeToTs L key val isDoc = Inr (Some ''{}'')"
  using assms(2-)
  by (cases "get_opt val ''type''")
    (auto simp: convert_eq [OF assms(1)] recognized_tag_def is_direct_tag_def is_native_def
      Let_def)






end
